theory Spec2Isabelle
  imports Main "HOL-Library.Word"
begin

section \<open>Data model of p2p/server.py\<close>

text \<open>
  Python \<open>bytes\<close> are lists of octets. Keys and signatures are the \<open>eth_keys\<close>
  wrappers around their byte representation.
\<close>

type_synonym bytes = "8 word list"

datatype PrivateKey = PrivateKey bytes
datatype PublicKey = PublicKey bytes
datatype Signature = Signature bytes

text \<open>
  The exceptions that can cross \<open>server.py\<close>. \<open>DecryptionError\<close> is the class the
  handshake catches; every other class raised by a collaborator is kept apart from it.
\<close>

datatype error =
    ValueError string
  | DecryptionError string
  | AttributeError string
  | TypeError string
  | OtherException string

text \<open>\<open>kademlia.Address\<close> and \<open>kademlia.Node\<close> as the server uses them.\<close>

record Address =
  ip :: string
  tcp_port :: int

record Node =
  pubkey :: PublicKey
  address :: Address

datatype AsyncChainDB = AsyncChainDB nat

text \<open>
  The responder object is opaque to the server: it is built from the remote node and the
  local private key, and it draws its own ephemeral key when it is constructed
  (\<open>seed\<close> is the position of that draw in the entropy source).
\<close>

record HandshakeResponder =
  remote :: Node
  responder_privkey :: PrivateKey
  seed :: nat

text \<open>The keyword arguments of the \<open>ETHPeer(...)\<close> call of lines 125-130.\<close>

record ETHPeer_args =
  peer_remote :: Node
  peer_privkey :: PrivateKey
  peer_conn :: nat
  peer_aes_secret :: bytes
  peer_mac_secret :: bytes
  peer_egress_mac :: bytes
  peer_ingress_mac :: bytes
  peer_chaindb :: AsyncChainDB
  peer_network_id :: int

text \<open>The object returned by \<open>asyncio.start_server\<close>.\<close>

record listener =
  host :: string
  port :: int
  closing :: bool
  released :: bool

text \<open>
  Every call that leaves \<open>server.py\<close> is recorded, with its arguments, in the order in
  which the code makes it.
\<close>

datatype event =
    LogInfo string
  | ReaderRead nat int
  | DecodeAuthPlain bytes PrivateKey
  | DecodeAuthEip8 bytes PrivateKey
  | EcdhAgree PrivateKey PublicKey
  | Sxor bytes bytes
  | RecoverPublicKey Signature bytes
  | GetExtraInfo nat
  | NewAddress string int
  | NewNode PublicKey Address
  | NewHandshakeResponder Node PrivateKey
  | TokenBytes int
  | CreateAuthAck HandshakeResponder bytes
  | EncryptAuthAck HandshakeResponder bytes
  | WriterWrite nat bytes
  | WriterDrain nat
  | DeriveSecrets HandshakeResponder bytes bytes PublicKey bytes bytes
  | NewETHPeer ETHPeer_args
  | AddPeer
  | StartServer string int
  | TokenTrigger
  | ServerClose
  | ServerWaitClosed
  | PeerPoolStop

text \<open>
  The immutable attributes \<open>__init__\<close> stores on the server (lines 52-55), and the
  mutable objects the server reaches: the cancel token, the \<open>_server\<close> attribute
  (\<open>None\<close> in the class body, line 42), the peer pool, the connections (a reader and
  writer pair each, numbered), the entropy source and the record of calls.
\<close>

record Server =
  chaindb :: AsyncChainDB
  privkey :: PrivateKey
  server_address :: Address
  network_id :: int

record ('c, 'p) world =
  cancel_token :: bool
  u_server :: "listener option"
  peer_pool :: 'p
  conns :: "nat \<Rightarrow> 'c"
  entropy :: nat
  trace :: "event list"

text \<open>
  The modules \<open>server.py\<close> imports are not part of the source at hand
  (\<open>p2p.auth\<close>, \<open>p2p.constants\<close>, \<open>p2p.ecies\<close>, \<open>p2p.utils\<close>, \<open>p2p.peer\<close>,
  \<open>p2p.kademlia\<close>, \<open>eth_keys\<close>, \<open>asyncio\<close>, \<open>secrets\<close>): the constants and functions
  taken from them are parameters. A function that can raise returns a sum; one that
  changes a connection or the pool returns the new one; a randomised one takes the
  position in the entropy source.
\<close>

type_synonym auth_payload = "Signature \<times> PublicKey \<times> bytes \<times> int"

record crypto_env =
  ENCRYPTED_AUTH_MSG_LEN :: int
  HASH_LEN :: int
  decode_auth_plain :: "bytes \<Rightarrow> PrivateKey \<Rightarrow> error + auth_payload"
  decode_auth_eip8 :: "bytes \<Rightarrow> PrivateKey \<Rightarrow> error + auth_payload"
  ecdh_agree :: "PrivateKey \<Rightarrow> PublicKey \<Rightarrow> error + bytes"
  sxor :: "bytes \<Rightarrow> bytes \<Rightarrow> error + bytes"
  recover_public_key_from_msg_hash :: "Signature \<Rightarrow> bytes \<Rightarrow> error + PublicKey"

record ('c, 'p) env = crypto_env +
  reader_read :: "'c \<Rightarrow> int \<Rightarrow> (error + bytes) \<times> 'c"
  get_extra_info_peername :: "'c \<Rightarrow> (string \<times> int \<times> int list) option"
  new_Address :: "string \<Rightarrow> int \<Rightarrow> error + Address"
  new_Node :: "PublicKey \<Rightarrow> Address \<Rightarrow> error + Node"
  new_HandshakeResponder :: "Node \<Rightarrow> PrivateKey \<Rightarrow> nat \<Rightarrow> error + HandshakeResponder"
  token_bytes :: "nat \<Rightarrow> int \<Rightarrow> error + bytes"
  create_auth_ack_message :: "HandshakeResponder \<Rightarrow> bytes \<Rightarrow> error + bytes"
  encrypt_auth_ack_message :: "HandshakeResponder \<Rightarrow> bytes \<Rightarrow> nat \<Rightarrow> error + bytes"
  writer_write :: "'c \<Rightarrow> bytes \<Rightarrow> (error + unit) \<times> 'c"
  writer_drain :: "'c \<Rightarrow> (error + unit) \<times> 'c"
  derive_secrets ::
    "HandshakeResponder \<Rightarrow> bytes \<Rightarrow> bytes \<Rightarrow> PublicKey \<Rightarrow> bytes \<Rightarrow> bytes
      \<Rightarrow> error + (bytes \<times> bytes \<times> bytes \<times> bytes)"
  new_ETHPeer :: "ETHPeer_args \<Rightarrow> error + ETHPeer_args"
  add_peer :: "'p \<Rightarrow> ETHPeer_args \<Rightarrow> (error + unit) \<times> 'p"
  start_server :: "string \<Rightarrow> int \<Rightarrow> error + listener"
  peer_pool_stop :: "'p \<Rightarrow> (error + unit) \<times> 'p"

section \<open>Control flow: exceptions and the record of calls\<close>

text \<open>
  A statement runs in a world and ends either normally with a value or with an
  exception; in both cases the effects it had so far stay.
\<close>

type_synonym ('s, 'a) prog = "'s \<Rightarrow> (error + 'a) \<times> 's"

definition ret :: "'a \<Rightarrow> ('s, 'a) prog" where
  "ret a s = (Inr a, s)"

definition raise :: "error \<Rightarrow> ('s, 'a) prog" where
  "raise e s = (Inl e, s)"

definition bindE :: "('s, 'a) prog \<Rightarrow> ('a \<Rightarrow> ('s, 'b) prog) \<Rightarrow> ('s, 'b) prog" where
  "bindE m f s = (case m s of (Inl e, s') \<Rightarrow> (Inl e, s') | (Inr a, s') \<Rightarrow> f a s')"

text \<open>\<open>try: m except DecryptionError: h\<close>; any other exception passes through.\<close>

definition try_except_DecryptionError ::
  "('s, 'a) prog \<Rightarrow> ('s, 'a) prog \<Rightarrow> ('s, 'a) prog" where
  "try_except_DecryptionError m h s =
     (case m s of
        (Inl (DecryptionError x), s') \<Rightarrow> h s'
      | r \<Rightarrow> r)"

definition log_call :: "event \<Rightarrow> (('c, 'p) world, unit) prog" where
  "log_call ev w = (Inr (), w\<lparr>trace := trace w @ [ev]\<rparr>)"

text \<open>A call of a collaborator without effect on the world: recorded, then its result.\<close>

definition call :: "event \<Rightarrow> error + 'a \<Rightarrow> (('c, 'p) world, 'a) prog" where
  "call ev r w = (r, w\<lparr>trace := trace w @ [ev]\<rparr>)"

section \<open>Helpers from the libraries\<close>

text \<open>\<open>eth_utils.big_endian_to_int\<close>, which is \<open>int.from_bytes(value, 'big')\<close>.\<close>

definition big_endian_to_int :: "bytes \<Rightarrow> int" where
  "big_endian_to_int bs = foldl (\<lambda>acc b. acc * 256 + uint b) 0 bs"

text \<open>\<open>str.format\<close> of a length: the decimal digits of a natural number.\<close>

function str_nat :: "nat \<Rightarrow> string" where
  "str_nat n =
     (if n < 10 then [char_of (48 + n)]
      else str_nat (n div 10) @ [char_of (48 + n mod 10)])"
  by pat_completeness auto
termination
  by (relation "measure id") auto

declare str_nat.simps [simp del]

section \<open>decode_authentication (lines 134-157)\<close>

definition decode_authentication ::
  "('e) crypto_env_scheme \<Rightarrow> bytes \<Rightarrow> PrivateKey
    \<Rightarrow> (('c, 'p) world, PublicKey \<times> bytes \<times> PublicKey) prog" where
  "decode_authentication env ciphertext privk =
     bindE
       (if int (length ciphertext) < ENCRYPTED_AUTH_MSG_LEN env then
          raise (ValueError (''Auth msg too short: '' @ str_nat (length ciphertext)))
        else if int (length ciphertext) = ENCRYPTED_AUTH_MSG_LEN env then
          call (DecodeAuthPlain ciphertext privk) (decode_auth_plain env ciphertext privk)
        else
          call (DecodeAuthEip8 ciphertext privk) (decode_auth_eip8 env ciphertext privk))
       (\<lambda>(sig, initiator_pubkey, initiator_nonce, _).
     bindE (call (EcdhAgree privk initiator_pubkey) (ecdh_agree env privk initiator_pubkey))
       (\<lambda>shared_secret.
     bindE (call (Sxor shared_secret initiator_nonce) (sxor env shared_secret initiator_nonce))
       (\<lambda>msg_hash.
     bindE (call (RecoverPublicKey sig msg_hash)
              (recover_public_key_from_msg_hash env sig msg_hash))
       (\<lambda>ephem_pubkey.
     ret (ephem_pubkey, initiator_nonce, initiator_pubkey)))))"

section \<open>Calls on the connection, the entropy source and the pool\<close>

definition reader_read_op :: "('c, 'p) env \<Rightarrow> nat \<Rightarrow> int \<Rightarrow> (('c, 'p) world, bytes) prog" where
  "reader_read_op env k n w =
     (case reader_read env (conns w k) n of
        (r, c') \<Rightarrow> (r, w\<lparr>conns := (conns w)(k := c'), trace := trace w @ [ReaderRead k n]\<rparr>))"

definition writer_write_op :: "('c, 'p) env \<Rightarrow> nat \<Rightarrow> bytes \<Rightarrow> (('c, 'p) world, unit) prog" where
  "writer_write_op env k data w =
     (case writer_write env (conns w k) data of
        (r, c') \<Rightarrow> (r, w\<lparr>conns := (conns w)(k := c'), trace := trace w @ [WriterWrite k data]\<rparr>))"

definition writer_drain_op :: "('c, 'p) env \<Rightarrow> nat \<Rightarrow> (('c, 'p) world, unit) prog" where
  "writer_drain_op env k w =
     (case writer_drain env (conns w k) of
        (r, c') \<Rightarrow> (r, w\<lparr>conns := (conns w)(k := c'), trace := trace w @ [WriterDrain k]\<rparr>))"

text \<open>
  \<open>ip, port, *_ = writer.get_extra_info("peername")\<close>: unpacking \<open>None\<close> raises
  \<open>TypeError\<close>.
\<close>

definition get_peername_op :: "('c, 'p) env \<Rightarrow> nat \<Rightarrow> (('c, 'p) world, string \<times> int) prog" where
  "get_peername_op env k w =
     (case get_extra_info_peername env (conns w k) of
        None \<Rightarrow>
          (Inl (TypeError ''cannot unpack non-iterable NoneType object''),
           w\<lparr>trace := trace w @ [GetExtraInfo k]\<rparr>)
      | Some (peer_ip, peer_port, _) \<Rightarrow> (Inr (peer_ip, peer_port), w\<lparr>trace := trace w @ [GetExtraInfo k]\<rparr>))"

text \<open>A randomised call: it reads the entropy source at its position and advances it.\<close>

definition draw :: "event \<Rightarrow> (nat \<Rightarrow> error + 'a) \<Rightarrow> (('c, 'p) world, 'a) prog" where
  "draw ev f w = (f (entropy w), w\<lparr>entropy := Suc (entropy w), trace := trace w @ [ev]\<rparr>)"

definition add_peer_op :: "('c, 'p) env \<Rightarrow> ETHPeer_args \<Rightarrow> (('c, 'p) world, unit) prog" where
  "add_peer_op env peer w =
     (case add_peer env (peer_pool w) peer of
        (r, p') \<Rightarrow> (r, w\<lparr>peer_pool := p', trace := trace w @ [AddPeer]\<rparr>))"

definition peer_pool_stop_op :: "('c, 'p) env \<Rightarrow> (('c, 'p) world, unit) prog" where
  "peer_pool_stop_op env w =
     (case peer_pool_stop env (peer_pool w) of
        (r, p') \<Rightarrow> (r, w\<lparr>peer_pool := p', trace := trace w @ [PeerPoolStop]\<rparr>))"

text \<open>\<open>CancelToken.trigger()\<close>: sets the token; it stays set.\<close>

definition cancel_token_trigger :: "(('c, 'p) world, unit) prog" where
  "cancel_token_trigger w = (Inr (), w\<lparr>cancel_token := True, trace := trace w @ [TokenTrigger]\<rparr>)"

text \<open>
  \<open>self._server.close()\<close> and \<open>self._server.wait_closed()\<close>: an attribute of \<open>None\<close>
  raises \<open>AttributeError\<close> before anything is called.
\<close>

definition none_has_no_attribute :: "string \<Rightarrow> error" where
  "none_has_no_attribute a =
     AttributeError ([CHR 0x27] @ ''NoneType'' @ [CHR 0x27] @ '' object has no attribute ''
                     @ [CHR 0x27] @ a @ [CHR 0x27])"

definition server_close :: "(('c, 'p) world, unit) prog" where
  "server_close w =
     (case u_server w of
        None \<Rightarrow> (Inl (none_has_no_attribute ''close''), w)
      | Some l \<Rightarrow>
          (Inr (), w\<lparr>u_server := Some (l\<lparr>closing := True\<rparr>), trace := trace w @ [ServerClose]\<rparr>))"

definition server_wait_closed :: "(('c, 'p) world, unit) prog" where
  "server_wait_closed w =
     (case u_server w of
        None \<Rightarrow> (Inl (none_has_no_attribute ''wait_closed''), w)
      | Some l \<Rightarrow>
          (Inr (), w\<lparr>u_server := Some (l\<lparr>released := True\<rparr>),
                     trace := trace w @ [ServerWaitClosed]\<rparr>))"

section \<open>Server.start and Server.stop (lines 61-66, 74-79)\<close>

definition start :: "('c, 'p) env \<Rightarrow> Server \<Rightarrow> (('c, 'p) world, unit) prog" where
  "start env self =
     bindE (call (StartServer (ip (server_address self)) (tcp_port (server_address self)))
              (start_server env (ip (server_address self)) (tcp_port (server_address self))))
       (\<lambda>l w. (Inr (), w\<lparr>u_server := Some l\<rparr>))"

definition stop :: "('c, 'p) env \<Rightarrow> Server \<Rightarrow> (('c, 'p) world, unit) prog" where
  "stop env self =
     bindE (log_call (LogInfo ''Closing server...'')) (\<lambda>_.
     bindE cancel_token_trigger (\<lambda>_.
     bindE server_close (\<lambda>_.
     bindE server_wait_closed (\<lambda>_.
     peer_pool_stop_op env))))"

text \<open>
  The world right after \<open>__init__\<close> (lines 44-59): a fresh token, the class attribute
  \<open>_server = None\<close>, the pool just built, nothing called yet.
\<close>

definition init_world :: "'p \<Rightarrow> (nat \<Rightarrow> 'c) \<Rightarrow> nat \<Rightarrow> ('c, 'p) world" where
  "init_world pool cs e =
     \<lparr>cancel_token = False, u_server = None, peer_pool = pool, conns = cs,
      entropy = e, trace = []\<rparr>"

section \<open>Server.receive_handshake (lines 81-131)\<close>

text \<open>Lines 83-96: the read of the auth-init message and its decoding, with the retry.\<close>

definition receive_auth_init ::
  "('c, 'p) env \<Rightarrow> Server \<Rightarrow> nat
    \<Rightarrow> (('c, 'p) world, bytes \<times> PublicKey \<times> bytes \<times> PublicKey) prog" where
  "receive_auth_init env self k =
     bindE (reader_read_op env k (ENCRYPTED_AUTH_MSG_LEN env)) (\<lambda>msg.
     try_except_DecryptionError
       (bindE (decode_authentication env msg (privkey self)) (\<lambda>r. ret (msg, r)))
       (let msg_size = big_endian_to_int (take 2 msg);
            remaining_bytes = msg_size - ENCRYPTED_AUTH_MSG_LEN env + 2
        in bindE (reader_read_op env k remaining_bytes) (\<lambda>more.
           let msg2 = msg @ more
           in bindE (decode_authentication env msg2 (privkey self)) (\<lambda>r. ret (msg2, r)))))"

text \<open>Lines 98-131: the reply, the secrets and the registration of the peer.\<close>

definition complete_handshake ::
  "('c, 'p) env \<Rightarrow> Server \<Rightarrow> nat \<Rightarrow> bytes \<times> PublicKey \<times> bytes \<times> PublicKey
    \<Rightarrow> (('c, 'p) world, unit) prog" where
  "complete_handshake env self k = (\<lambda>(msg, ephem_pubkey, initiator_nonce, initiator_pubkey).
     bindE (get_peername_op env k) (\<lambda>(peer_ip, peer_port).
     bindE (call (NewAddress peer_ip peer_port) (new_Address env peer_ip peer_port)) (\<lambda>remote_address.
     bindE (call (NewNode initiator_pubkey remote_address)
              (new_Node env initiator_pubkey remote_address)) (\<lambda>initiator_remote.
     bindE (draw (NewHandshakeResponder initiator_remote (privkey self))
              (new_HandshakeResponder env initiator_remote (privkey self))) (\<lambda>responder.
     bindE (draw (TokenBytes (HASH_LEN env))
              (\<lambda>e. token_bytes env e (HASH_LEN env))) (\<lambda>responder_nonce.
     bindE (call (CreateAuthAck responder responder_nonce)
              (create_auth_ack_message env responder responder_nonce)) (\<lambda>auth_ack_msg.
     bindE (draw (EncryptAuthAck responder auth_ack_msg)
              (encrypt_auth_ack_message env responder auth_ack_msg)) (\<lambda>auth_ack_ciphertext.
     bindE (writer_write_op env k auth_ack_ciphertext) (\<lambda>_.
     bindE (writer_drain_op env k) (\<lambda>_.
     bindE (call (DeriveSecrets responder initiator_nonce responder_nonce ephem_pubkey msg
                    auth_ack_ciphertext)
              (derive_secrets env responder initiator_nonce responder_nonce ephem_pubkey msg
                    auth_ack_ciphertext)) (\<lambda>(aes_secret, mac_secret, egress_mac, ingress_mac).
     let args = \<lparr>peer_remote = initiator_remote, peer_privkey = privkey self, peer_conn = k,
                 peer_aes_secret = aes_secret, peer_mac_secret = mac_secret,
                 peer_egress_mac = egress_mac, peer_ingress_mac = ingress_mac,
                 peer_chaindb = chaindb self, peer_network_id = network_id self\<rparr>
     in bindE (call (NewETHPeer args) (new_ETHPeer env args)) (\<lambda>eth_peer.
        add_peer_op env eth_peer))))))))))))"

definition receive_handshake :: "('c, 'p) env \<Rightarrow> Server \<Rightarrow> nat \<Rightarrow> (('c, 'p) world, unit) prog" where
  "receive_handshake env self k =
     bindE (receive_auth_init env self k) (complete_handshake env self k)"

text \<open>The calls made between two worlds of one run.\<close>

definition events_since :: "('c, 'p) world \<Rightarrow> ('c, 'p) world \<Rightarrow> event list" where
  "events_since w w' = drop (length (trace w)) (trace w')"

section \<open>A concrete instance\<close>

text \<open>
  Stand-ins for the collaborators, to run the server on concrete inputs. The properties
  below hold for every instance of the parameters; these are used where a concrete run
  is shown. A connection is the pair of the bytes the peer has sent that are still
  unread (the peer has closed its side after them) and the bytes written so far.
\<close>

type_synonym demo_conn = "bytes \<times> bytes"

text \<open>
  \<open>asyncio.StreamReader.read(n)\<close> on such a connection: all that is left for a negative
  \<open>n\<close>, nothing for \<open>n = 0\<close>, at most \<open>n\<close> bytes otherwise.
\<close>

definition demo_read :: "demo_conn \<Rightarrow> int \<Rightarrow> (error + bytes) \<times> demo_conn" where
  "demo_read c n =
     (if n < 0 then (Inr (fst c), ([], snd c))
      else (Inr (take (nat n) (fst c)), (drop (nat n) (fst c), snd c)))"

definition demo_payload :: "bytes \<Rightarrow> error + auth_payload" where
  "demo_payload body =
     (if take 1 body = [4]
      then Inr (Signature (take 3 (drop 1 body)), PublicKey (take 3 (drop 4 body)),
                take 3 (drop 7 body), 4)
      else Inl (DecryptionError ''Failed to verify tag''))"

definition demo_sxor :: "bytes \<Rightarrow> bytes \<Rightarrow> error + bytes" where
  "demo_sxor s1 s2 =
     (if length s1 \<noteq> length s2 then Inl (ValueError ''Cannot sxor strings of different length'')
      else Inr (map (\<lambda>(x, y). xor x y) (zip s1 s2)))"

definition demo_env :: "(demo_conn, ETHPeer_args list) env" where
  "demo_env =
     \<lparr>ENCRYPTED_AUTH_MSG_LEN = 307,
      HASH_LEN = 32,
      decode_auth_plain = (\<lambda>c k. demo_payload c),
      decode_auth_eip8 = (\<lambda>c k. demo_payload (drop 2 c)),
      ecdh_agree = (\<lambda>k p. case (k, p) of (PrivateKey a, PublicKey b) \<Rightarrow> Inr (map (\<lambda>(x, y). x + y) (zip a b))),
      sxor = demo_sxor,
      recover_public_key_from_msg_hash = (\<lambda>s h. case s of Signature b \<Rightarrow> Inr (PublicKey (b @ h))),
      reader_read = demo_read,
      get_extra_info_peername = (\<lambda>c. Some (''10.0.0.7'', 30303, [])),
      new_Address = (\<lambda>a p. Inr \<lparr>ip = a, tcp_port = p\<rparr>),
      new_Node = (\<lambda>k a. Inr \<lparr>pubkey = k, address = a\<rparr>),
      new_HandshakeResponder = (\<lambda>n k e. Inr \<lparr>remote = n, responder_privkey = k, seed = e\<rparr>),
      token_bytes = (\<lambda>e n. Inr (replicate (nat n) (of_nat e))),
      create_auth_ack_message = (\<lambda>r n. Inr (n @ [4])),
      encrypt_auth_ack_message = (\<lambda>r m e. Inr (4 # m)),
      writer_write = (\<lambda>c d. (Inr (), (fst c, snd c @ d))),
      writer_drain = (\<lambda>c. (Inr (), c)),
      derive_secrets = (\<lambda>r a b c d e. Inr (a, b, take 2 d, take 2 e)),
      new_ETHPeer = Inr,
      add_peer = (\<lambda>p x. (Inr (), p @ [x])),
      start_server = (\<lambda>h p. Inr \<lparr>host = h, port = p, closing = False, released = False\<rparr>),
      peer_pool_stop = (\<lambda>p. (Inr (), p))\<rparr>"

definition demo_self :: Server where
  "demo_self =
     \<lparr>chaindb = AsyncChainDB 0, privkey = PrivateKey [1, 2, 3],
      server_address = \<lparr>ip = ''0.0.0.0'', tcp_port = 30303\<rparr>, network_id = 1\<rparr>"

text \<open>A world with one connection, number 0, on which the peer has sent \<open>input\<close>.\<close>

definition demo_world :: "bytes \<Rightarrow> (demo_conn, ETHPeer_args list) world" where
  "demo_world input = init_world [] (\<lambda>k. if k = 0 then (input, []) else ([], [])) 0"

text \<open>
  Auth-init buffers of 307 bytes: one the plain stand-in decodes, one it rejects whose
  first two bytes declare 357, and one it rejects whose first two bytes declare 0.
\<close>

definition demo_plain_msg :: bytes where
  "demo_plain_msg = [4, 10, 11, 12, 20, 21, 22, 30, 31, 32] @ replicate 297 0"

definition demo_bad_msg :: bytes where
  "demo_bad_msg = [1, 101] @ replicate 305 0"

definition demo_short_prefix_msg :: bytes where
  "demo_short_prefix_msg = [0, 0, 4, 10, 11, 12, 20, 21, 22, 30, 31, 32] @ replicate 295 0"

text \<open>
  An extended message of 359 bytes: its first 307 bytes, which the plain stand-in rejects
  and whose first two bytes declare 357, and the 52 bytes that follow.
\<close>

definition demo_eip8_head :: bytes where
  "demo_eip8_head = [1, 101, 4, 10, 11, 12, 20, 21, 22, 30, 31, 32] @ replicate 295 0"


text \<open>The instance with another peer constructor and another registry.\<close>

definition demo_env_with ::
  "(ETHPeer_args \<Rightarrow> error + ETHPeer_args)
    \<Rightarrow> (ETHPeer_args list \<Rightarrow> ETHPeer_args \<Rightarrow> (error + unit) \<times> ETHPeer_args list)
    \<Rightarrow> (demo_conn, ETHPeer_args list) env" where
  "demo_env_with f g = demo_env\<lparr>new_ETHPeer := f, add_peer := g\<rparr>"



definition demo_peer :: ETHPeer_args where
  "demo_peer =
     \<lparr>peer_remote = \<lparr>pubkey = PublicKey [20, 21, 22],
                      address = \<lparr>ip = ''10.0.0.7'', tcp_port = 30303\<rparr>\<rparr>,
      peer_privkey = PrivateKey [1, 2, 3], peer_conn = 0,
      peer_aes_secret = [30, 31, 32], peer_mac_secret = replicate 32 1,
      peer_egress_mac = [4, 10], peer_ingress_mac = [4, 1],
      peer_chaindb = AsyncChainDB 0, peer_network_id = 1\<rparr>"

section \<open>Reading the record of calls\<close>

fun is_decoder_call :: "event \<Rightarrow> bool" where
  "is_decoder_call (DecodeAuthPlain c k) = True"
| "is_decoder_call (DecodeAuthEip8 c k) = True"
| "is_decoder_call _ = False"

fun is_read_or_decode :: "event \<Rightarrow> bool" where
  "is_read_or_decode (ReaderRead k n) = True"
| "is_read_or_decode (DecodeAuthPlain c k) = True"
| "is_read_or_decode (DecodeAuthEip8 c k) = True"
| "is_read_or_decode _ = False"

fun is_derive_secrets :: "event \<Rightarrow> bool" where
  "is_derive_secrets (DeriveSecrets r a b c d e) = True"
| "is_derive_secrets _ = False"

fun is_registration :: "event \<Rightarrow> bool" where
  "is_registration (NewETHPeer a) = True"
| "is_registration AddPeer = True"
| "is_registration _ = False"

fun is_crypto_call :: "event \<Rightarrow> bool" where
  "is_crypto_call (DecodeAuthPlain c k) = True"
| "is_crypto_call (DecodeAuthEip8 c k) = True"
| "is_crypto_call (EcdhAgree k p) = True"
| "is_crypto_call (Sxor a b) = True"
| "is_crypto_call (RecoverPublicKey s h) = True"
| "is_crypto_call _ = False"

fun is_read :: "event \<Rightarrow> bool" where
  "is_read (ReaderRead k n) = True"
| "is_read _ = False"

text \<open>The decoder \<open>decode_authentication\<close> selects for a buffer of at least the minimum length.\<close>

definition decoder_call :: "('e) crypto_env_scheme \<Rightarrow> bytes \<Rightarrow> PrivateKey \<Rightarrow> event" where
  "decoder_call env c k =
     (if int (length c) = ENCRYPTED_AUTH_MSG_LEN env then DecodeAuthPlain c k
      else DecodeAuthEip8 c k)"

section \<open>The decode dispatch as section 4.2 of the specification words it\<close>

text \<open>
  The specification has the XOR of the shared secret and the nonce hashed before the key
  recovery. This second definition follows that wording, with the hash function as a
  parameter, to be compared with \<open>decode_authentication\<close>.
\<close>

definition decode_authentication_spec ::
  "(bytes \<Rightarrow> bytes) \<Rightarrow> ('e) crypto_env_scheme \<Rightarrow> bytes \<Rightarrow> PrivateKey
    \<Rightarrow> (('c, 'p) world, PublicKey \<times> bytes \<times> PublicKey) prog" where
  "decode_authentication_spec hash env ciphertext privk =
     bindE
       (if int (length ciphertext) < ENCRYPTED_AUTH_MSG_LEN env then
          raise (ValueError (''Auth msg too short: '' @ str_nat (length ciphertext)))
        else if int (length ciphertext) = ENCRYPTED_AUTH_MSG_LEN env then
          call (DecodeAuthPlain ciphertext privk) (decode_auth_plain env ciphertext privk)
        else
          call (DecodeAuthEip8 ciphertext privk) (decode_auth_eip8 env ciphertext privk))
       (\<lambda>(sig, initiator_pubkey, initiator_nonce, _).
     bindE (call (EcdhAgree privk initiator_pubkey) (ecdh_agree env privk initiator_pubkey))
       (\<lambda>shared_secret.
     bindE (call (Sxor shared_secret initiator_nonce) (sxor env shared_secret initiator_nonce))
       (\<lambda>x.
     bindE (call (RecoverPublicKey sig (hash x))
              (recover_public_key_from_msg_hash env sig (hash x)))
       (\<lambda>ephem_pubkey.
     ret (ephem_pubkey, initiator_nonce, initiator_pubkey)))))"

text \<open>A stand-in hash for concrete runs: any function that is not the identity.\<close>

definition demo_hash :: "bytes \<Rightarrow> bytes" where
  "demo_hash x = rev x"

section \<open>Basic facts about the control flow\<close>

lemma bindE_raise [simp]: "bindE (raise e) f s = (Inl e, s)"
  by (simp add: bindE_def raise_def)

lemma bindE_ret [simp]: "bindE (ret a) f s = f a s"
  by (simp add: bindE_def ret_def)

lemma bindE_call:
  "bindE (call ev r) f w =
     (case r of Inl e \<Rightarrow> (Inl e, w\<lparr>trace := trace w @ [ev]\<rparr>)
              | Inr a \<Rightarrow> f a (w\<lparr>trace := trace w @ [ev]\<rparr>))"
  by (simp add: bindE_def call_def split: sum.splits)

lemma events_since_append:
  "trace w' = trace w @ evs \<Longrightarrow> events_since w w' = evs"
  by (simp add: events_since_def)

lemma str_nat_10: "str_nat 10 = ''10''"
  by code_simp

lemma demo_len [simp]:
  "length demo_plain_msg = 307" "length demo_bad_msg = 307" "length demo_short_prefix_msg = 307"
  by (simp_all add: demo_plain_msg_def demo_bad_msg_def demo_short_prefix_msg_def)

lemma decode_authentication_pure:
  "decode_authentication env c k w =
     (fst (decode_authentication env c k w0),
      w\<lparr>trace := trace w @ events_since w0 (snd (decode_authentication env c k w0))\<rparr>)"
  by (auto simp: decode_authentication_def bindE_call ret_def events_since_def
           split: sum.splits prod.splits)

lemma decode_authentication_io:
  "filter is_read_or_decode (events_since w (snd (decode_authentication env c k w))) =
     (if int (length c) < ENCRYPTED_AUTH_MSG_LEN env then [] else [decoder_call env c k])"
  by (auto simp: decode_authentication_def decoder_call_def bindE_call ret_def
           events_since_def split: sum.splits prod.splits)

lemma decode_authentication_derive:
  "filter is_derive_secrets (events_since w (snd (decode_authentication env c k w))) = []"
  by (auto simp: decode_authentication_def bindE_call ret_def events_since_def
           split: sum.splits prod.splits)

lemma decode_authentication_DecryptionError_len:
  "fst (decode_authentication env c k w) = Inl (DecryptionError x) \<Longrightarrow>
     ENCRYPTED_AUTH_MSG_LEN env \<le> int (length c)"
  by (auto simp: decode_authentication_def split: if_splits)

lemma start_demo:
  "start demo_env demo_self (demo_world []) =
     (Inr (), (demo_world [])
        \<lparr>u_server := Some \<lparr>host = ''0.0.0.0'', port = 30303, closing = False, released = False\<rparr>,
         trace := [StartServer ''0.0.0.0'' 30303]\<rparr>)"
  by (simp add: start_def bindE_call demo_env_def demo_self_def demo_world_def init_world_def)

section \<open>Facts about receive_handshake\<close>

lemma decode_authentication_crypto:
  "list_all is_crypto_call (events_since w (snd (decode_authentication env c k w)))"
  by (auto simp: decode_authentication_def bindE_call ret_def events_since_def
           split: sum.splits prod.splits)

lemma receive_auth_init_no_fallback:
  assumes rd1: "reader_read env (conns w k) (ENCRYPTED_AUTH_MSG_LEN env) = (Inr msg, c1)"
    and dec1: "\<forall>x. fst (decode_authentication env msg (privkey self) w0) \<noteq> Inl (DecryptionError x)"
  shows "receive_auth_init env self k w =
           (map_sum id (Pair msg) (fst (decode_authentication env msg (privkey self) w0)),
            w\<lparr>conns := (conns w)(k := c1),
              trace := trace w @ [ReaderRead k (ENCRYPTED_AUTH_MSG_LEN env)]
                 @ events_since w0 (snd (decode_authentication env msg (privkey self) w0))\<rparr>)"
proof -
  define W1 where "W1 = w\<lparr>conns := (conns w)(k := c1),
                          trace := trace w @ [ReaderRead k (ENCRYPTED_AUTH_MSG_LEN env)]\<rparr>"
  define D1 where "D1 = events_since w0 (snd (decode_authentication env msg (privkey self) w0))"
  have d1: "decode_authentication env msg (privkey self) W1
              = (fst (decode_authentication env msg (privkey self) w0), W1\<lparr>trace := trace W1 @ D1\<rparr>)"
    unfolding D1_def by (rule decode_authentication_pure)
  show ?thesis
  proof (cases "fst (decode_authentication env msg (privkey self) w0)")
    case (Inl e)
    with dec1 have "\<forall>x. e \<noteq> DecryptionError x" by auto
    then show ?thesis
      using rd1 d1 Inl
      by (cases e)
         (simp_all add: receive_auth_init_def bindE_def reader_read_op_def ret_def
          try_except_DecryptionError_def Let_def W1_def D1_def)
  next
    case (Inr p)
    then show ?thesis
      using rd1 d1
      by (simp add: receive_auth_init_def bindE_def reader_read_op_def ret_def
          try_except_DecryptionError_def Let_def W1_def D1_def)
  qed
qed

lemma receive_auth_init_read_fails:
  assumes rd1: "reader_read env (conns w k) (ENCRYPTED_AUTH_MSG_LEN env) = (Inl e, c1)"
  shows "receive_auth_init env self k w =
           (Inl e, w\<lparr>conns := (conns w)(k := c1),
              trace := trace w @ [ReaderRead k (ENCRYPTED_AUTH_MSG_LEN env)]\<rparr>)"
  using rd1 by (simp add: receive_auth_init_def bindE_def reader_read_op_def)

lemma receive_auth_init_fallback:
  assumes rd1: "reader_read env (conns w k) (ENCRYPTED_AUTH_MSG_LEN env) = (Inr msg, c1)"
    and dec1: "fst (decode_authentication env msg (privkey self) w0) = Inl (DecryptionError x)"
    and rd2: "reader_read env c1
                (big_endian_to_int (take 2 msg) - ENCRYPTED_AUTH_MSG_LEN env + 2) = (r2, c2)"
  shows "receive_auth_init env self k w =
           (case r2 of
              Inl e \<Rightarrow> Inl e
            | Inr extra \<Rightarrow>
                map_sum id (Pair (msg @ extra))
                  (fst (decode_authentication env (msg @ extra) (privkey self) w0)),
            w\<lparr>conns := (conns w)(k := c2),
              trace := trace w @ [ReaderRead k (ENCRYPTED_AUTH_MSG_LEN env)]
                 @ events_since w0 (snd (decode_authentication env msg (privkey self) w0))
                 @ [ReaderRead k (big_endian_to_int (take 2 msg) - ENCRYPTED_AUTH_MSG_LEN env + 2)]
                 @ (case r2 of
                      Inl e \<Rightarrow> []
                    | Inr extra \<Rightarrow>
                        events_since w0
                          (snd (decode_authentication env (msg @ extra) (privkey self) w0)))\<rparr>)"
proof -
  define W1 where "W1 = w\<lparr>conns := (conns w)(k := c1),
                          trace := trace w @ [ReaderRead k (ENCRYPTED_AUTH_MSG_LEN env)]\<rparr>"
  define D1 where "D1 = events_since w0 (snd (decode_authentication env msg (privkey self) w0))"
  have d1: "decode_authentication env msg (privkey self) W1
              = (Inl (DecryptionError x), W1\<lparr>trace := trace W1 @ D1\<rparr>)"
    using decode_authentication_pure [of env msg "privkey self" W1 w0] dec1
    by (simp add: D1_def)
  have step1: "receive_auth_init env self k w =
      bindE (reader_read_op env k (big_endian_to_int (take 2 msg) - ENCRYPTED_AUTH_MSG_LEN env + 2))
        (\<lambda>extra. bindE (decode_authentication env (msg @ extra) (privkey self))
                   (\<lambda>r. ret (msg @ extra, r)))
        (W1\<lparr>trace := trace W1 @ D1\<rparr>)"
    using rd1 d1
    by (simp add: receive_auth_init_def bindE_def reader_read_op_def
          try_except_DecryptionError_def Let_def W1_def [symmetric])
  show ?thesis
  proof (cases r2)
    case (Inl e)
    then show ?thesis
      using rd2 by (simp add: step1 bindE_def reader_read_op_def W1_def D1_def)
  next
    case (Inr extra)
    define W2 where "W2 = W1\<lparr>conns := (conns w)(k := c2), trace := trace W1 @ D1 @
       [ReaderRead k (big_endian_to_int (take 2 msg) - ENCRYPTED_AUTH_MSG_LEN env + 2)]\<rparr>"
    have d2: "decode_authentication env (msg @ extra) (privkey self) W2
              = (fst (decode_authentication env (msg @ extra) (privkey self) w0),
                 W2\<lparr>trace := trace W2 @ events_since w0
                      (snd (decode_authentication env (msg @ extra) (privkey self) w0))\<rparr>)"
      by (rule decode_authentication_pure)
    have "receive_auth_init env self k w =
            bindE (decode_authentication env (msg @ extra) (privkey self))
                   (\<lambda>r. ret (msg @ extra, r)) W2"
      using rd2 Inr by (simp add: step1 bindE_def reader_read_op_def W1_def W2_def)
    then show ?thesis
      using Inr d2
      by (cases "fst (decode_authentication env (msg @ extra) (privkey self) w0)")
         (simp_all add: bindE_def ret_def W2_def W1_def D1_def)
  qed
qed

lemma receive_auth_init_shape:
  assumes run: "receive_auth_init env self k w = (r, w1)"
  shows "cancel_token w1 = cancel_token w \<and> u_server w1 = u_server w \<and>
         peer_pool w1 = peer_pool w \<and> entropy w1 = entropy w \<and>
         (\<forall>j. j \<noteq> k \<longrightarrow> conns w1 j = conns w j) \<and>
         trace w1 = trace w @ events_since w w1 \<and>
         list_all (\<lambda>e. is_crypto_call e \<or> is_read e) (events_since w w1) \<and>
         (\<forall>msg p. r = Inr (msg, p) \<longrightarrow>
             fst (decode_authentication env msg (privkey self) w) = Inr p)"
proof -
  have mono: "\<And>xs. list_all is_crypto_call xs \<Longrightarrow> list_all (\<lambda>e. is_crypto_call e \<or> is_read e) xs"
    by (simp add: list_all_iff)
  note dc = mono [OF decode_authentication_crypto]
  obtain r1 c1 where rd1: "reader_read env (conns w k) (ENCRYPTED_AUTH_MSG_LEN env) = (r1, c1)"
    by (cases "reader_read env (conns w k) (ENCRYPTED_AUTH_MSG_LEN env)")
  show ?thesis
  proof (cases r1)
    case (Inl e)
    show ?thesis
      using run receive_auth_init_read_fails [OF rd1 [unfolded Inl], of self]
      by (auto simp: events_since_def)
  next
    case (Inr msg)
    note rd1' = rd1 [unfolded Inr]
    show ?thesis
    proof (cases "\<exists>x. fst (decode_authentication env msg (privkey self) w) = Inl (DecryptionError x)")
      case True
      then obtain x where dec1: "fst (decode_authentication env msg (privkey self) w) = Inl (DecryptionError x)"
        by blast
      obtain r2 c2 where rd2: "reader_read env c1
                (big_endian_to_int (take 2 msg) - ENCRYPTED_AUTH_MSG_LEN env + 2) = (r2, c2)"
        by (cases "reader_read env c1
                (big_endian_to_int (take 2 msg) - ENCRYPTED_AUTH_MSG_LEN env + 2)")
      show ?thesis
      proof (cases r2)
        case (Inl e)
        show ?thesis
          using run receive_auth_init_fallback [OF rd1' dec1 rd2] Inl dc [of w env msg "privkey self"]
          by (auto simp: events_since_def)
      next
        case (Inr extra)
        show ?thesis
          using run receive_auth_init_fallback [OF rd1' dec1 rd2] Inr
            dc [of w env msg "privkey self"] dc [of w env "msg @ extra" "privkey self"]
          by (cases "fst (decode_authentication env (msg @ extra) (privkey self) w)")
             (auto simp: events_since_def)
      qed
    next
      case False
      then have nd: "\<forall>x. fst (decode_authentication env msg (privkey self) w) \<noteq> Inl (DecryptionError x)"
        by blast
      show ?thesis
        using run receive_auth_init_no_fallback [OF rd1' nd] dc [of w env msg "privkey self"]
        by (cases "fst (decode_authentication env msg (privkey self) w)")
           (auto simp: events_since_def)
    qed
  qed
qed

lemmas op_defs = bindE_def ret_def raise_def call_def draw_def log_call_def reader_read_op_def
  writer_write_op_def writer_drain_op_def get_peername_op_def add_peer_op_def

lemma complete_handshake_frame:
  "complete_handshake env self k x w = (r, w') \<Longrightarrow>
     cancel_token w' = cancel_token w \<and> u_server w' = u_server w \<and>
     (\<forall>j. j \<noteq> k \<longrightarrow> conns w' j = conns w j) \<and>
     trace w' = trace w @ events_since w w' \<and>
     filter is_read_or_decode (events_since w w') = []"
  by (auto simp: complete_handshake_def op_defs Let_def events_since_def
           split: prod.splits sum.splits option.splits)

lemma complete_handshake_pool:
  "complete_handshake env self k x w = (r, w') \<Longrightarrow>
     (AddPeer \<notin> set (events_since w w') \<longrightarrow>
        peer_pool w' = peer_pool w \<and> (\<exists>err. r = Inl err \<and>
        (\<forall>a. NewETHPeer a \<in> set (events_since w w') \<longrightarrow> new_ETHPeer env a = Inl err))) \<and>
     (AddPeer \<in> set (events_since w w') \<longrightarrow>
        (\<exists>peer. add_peer env (peer_pool w) peer = (r, peer_pool w')))"
  by (auto simp: complete_handshake_def op_defs Let_def events_since_def
           split: prod.splits sum.splits option.splits)


lemma receive_handshake_fail:
  "receive_auth_init env self k w = (Inl e, w1) \<Longrightarrow> receive_handshake env self k w = (Inl e, w1)"
  by (simp add: receive_handshake_def bindE_def)

lemma receive_handshake_cont:
  "receive_auth_init env self k w = (Inr x, w1) \<Longrightarrow>
     receive_handshake env self k w = complete_handshake env self k x w1"
  by (simp add: receive_handshake_def bindE_def)

lemma events_since_trans:
  assumes a: "trace w1 = trace w @ events_since w w1"
    and b: "trace w2 = trace w1 @ events_since w1 w2"
  shows "events_since w w2 = events_since w w1 @ events_since w1 w2"
proof -
  have "trace w2 = (trace w @ events_since w w1) @ events_since w1 w2"
    by (subst b, subst a, rule refl)
  then have "trace w2 = trace w @ (events_since w w1 @ events_since w1 w2)"
    by (simp only: append_assoc)
  then show ?thesis
    by (rule events_since_append)
qed

lemma crypto_or_read_other:
  "is_crypto_call e \<or> is_read e \<Longrightarrow>
     \<not> is_derive_secrets e \<and> \<not> is_registration e \<and> e \<noteq> AddPeer \<and> (\<forall>a. e \<noteq> NewETHPeer a)
     \<and> (\<forall>h a b c d x. e \<noteq> DeriveSecrets h a b c d x)"
  by (cases e) auto
lemma crypto_or_read_filter:
  assumes "list_all (\<lambda>e. is_crypto_call e \<or> is_read e) evs"
  shows "filter is_derive_secrets evs = [] \<and> AddPeer \<notin> set evs \<and> (\<forall>a. NewETHPeer a \<notin> set evs)
     \<and> (\<forall>h a b c d e. DeriveSecrets h a b c d e \<notin> set evs)"
proof -
  have m: "\<And>e. e \<in> set evs \<Longrightarrow> is_crypto_call e \<or> is_read e"
    using assms by (simp add: list_all_iff)
  have 1: "filter is_derive_secrets evs = []"
    unfolding filter_empty_conv using m crypto_or_read_other by blast
  have 2: "AddPeer \<notin> set evs"
    using m [of AddPeer] by auto
  have 3: "NewETHPeer a \<notin> set evs" for a
    using m [of "NewETHPeer a"] by auto
  have 4: "DeriveSecrets h a b c d e \<notin> set evs" for h a b c d e
    using m [of "DeriveSecrets h a b c d e"] by auto
  show ?thesis
    using 1 2 3 4 by blast
qed

lemma receive_handshake_fallback_no_bytes:
  assumes rd1: "reader_read env (conns w k) (ENCRYPTED_AUTH_MSG_LEN env) = (Inr msg, c1)"
    and dec1: "fst (decode_authentication env msg (privkey self) w) = Inl (DecryptionError x)"
    and rd2: "reader_read env c1
                (big_endian_to_int (take 2 msg) - ENCRYPTED_AUTH_MSG_LEN env + 2) = (r2, c2)"
    and nomore: "\<forall>extra. r2 = Inr extra \<longrightarrow> extra = []"
  shows "receive_handshake env self k w =
           (case r2 of Inl e \<Rightarrow> Inl e | Inr extra \<Rightarrow> Inl (DecryptionError x),
            w\<lparr>conns := (conns w)(k := c2),
              trace := trace w @ [ReaderRead k (ENCRYPTED_AUTH_MSG_LEN env)]
                 @ events_since w (snd (decode_authentication env msg (privkey self) w))
                 @ [ReaderRead k (big_endian_to_int (take 2 msg) - ENCRYPTED_AUTH_MSG_LEN env + 2)]
                 @ (case r2 of
                      Inl e \<Rightarrow> []
                    | Inr extra \<Rightarrow>
                        events_since w (snd (decode_authentication env msg (privkey self) w)))\<rparr>)"
proof (cases r2)
  case (Inl e)
  show ?thesis
    using receive_auth_init_fallback [OF rd1 dec1 rd2] Inl
    by (simp add: receive_handshake_fail)
next
  case (Inr extra)
  with nomore have "extra = []"
    by blast
  with Inr show ?thesis
    using receive_auth_init_fallback [OF rd1 dec1 rd2] dec1
    by (simp add: receive_handshake_fail)
qed

lemma receive_handshake_fallback_bytes:
  assumes rd1: "reader_read env (conns w k) (ENCRYPTED_AUTH_MSG_LEN env) = (Inr msg, c1)"
    and dec1: "fst (decode_authentication env msg (privkey self) w) = Inl (DecryptionError x)"
    and rd2: "reader_read env c1
                (big_endian_to_int (take 2 msg) - ENCRYPTED_AUTH_MSG_LEN env + 2) = (Inr extra, c2)"
    and ne: "extra \<noteq> []"
  shows "filter is_read_or_decode (events_since w (snd (receive_handshake env self k w))) =
           [ReaderRead k (ENCRYPTED_AUTH_MSG_LEN env),
            decoder_call env msg (privkey self),
            ReaderRead k (big_endian_to_int (take 2 msg) - ENCRYPTED_AUTH_MSG_LEN env + 2),
            DecodeAuthEip8 (msg @ extra) (privkey self)] \<and>
         (\<forall>e. fst (decode_authentication env (msg @ extra) (privkey self) w) = Inl e \<longrightarrow>
              fst (receive_handshake env self k w) = Inl e \<and>
              peer_pool (snd (receive_handshake env self k w)) = peer_pool w \<and>
              filter is_registration (events_since w (snd (receive_handshake env self k w))) = []) \<and>
         (\<forall>p. fst (decode_authentication env (msg @ extra) (privkey self) w) = Inr p \<longrightarrow>
              receive_handshake env self k w =
                complete_handshake env self k (msg @ extra, p)
                  (w\<lparr>conns := (conns w)(k := c2),
                     trace := trace w @ [ReaderRead k (ENCRYPTED_AUTH_MSG_LEN env)]
                       @ events_since w (snd (decode_authentication env msg (privkey self) w))
                       @ [ReaderRead k
                            (big_endian_to_int (take 2 msg) - ENCRYPTED_AUTH_MSG_LEN env + 2)]
                       @ events_since w
                           (snd (decode_authentication env (msg @ extra) (privkey self) w))\<rparr>))"
proof -
  define rem where "rem = big_endian_to_int (take 2 msg) - ENCRYPTED_AUTH_MSG_LEN env + 2"
  define D1 where "D1 = events_since w (snd (decode_authentication env msg (privkey self) w))"
  define D2 where
    "D2 = events_since w (snd (decode_authentication env (msg @ extra) (privkey self) w))"
  define E1 where "E1 = [ReaderRead k (ENCRYPTED_AUTH_MSG_LEN env)] @ D1 @ [ReaderRead k rem] @ D2"
  define w1 where "w1 = w\<lparr>conns := (conns w)(k := c2), trace := trace w @ E1\<rparr>"
  have len1: "ENCRYPTED_AUTH_MSG_LEN env \<le> int (length msg)"
    using dec1 by (rule decode_authentication_DecryptionError_len)
  have len2: "ENCRYPTED_AUTH_MSG_LEN env < int (length (msg @ extra))"
    using len1 ne by (cases extra) simp_all
  then have len2': "\<not> int (length (msg @ extra)) < ENCRYPTED_AUTH_MSG_LEN env"
    by simp
  from len1 have len1': "\<not> int (length msg) < ENCRYPTED_AUTH_MSG_LEN env"
    by simp
  have dc2: "decoder_call env (msg @ extra) (privkey self) = DecodeAuthEip8 (msg @ extra) (privkey self)"
    using len2 by (simp add: decoder_call_def del: length_append)
  have ra: "receive_auth_init env self k w =
              (map_sum id (Pair (msg @ extra))
                 (fst (decode_authentication env (msg @ extra) (privkey self) w)), w1)"
    using receive_auth_init_fallback [OF rd1 dec1 rd2]
    by (simp add: w1_def E1_def D1_def D2_def rem_def)
  have f1: "filter is_read_or_decode D1 = [decoder_call env msg (privkey self)]"
    unfolding D1_def decode_authentication_io using len1' by (simp only: if_False)
  have f2: "filter is_read_or_decode D2 = [DecodeAuthEip8 (msg @ extra) (privkey self)]"
    unfolding D2_def decode_authentication_io using len2' by (simp only: if_False dc2)
  have fE: "filter is_read_or_decode E1 =
           [ReaderRead k (ENCRYPTED_AUTH_MSG_LEN env), decoder_call env msg (privkey self),
            ReaderRead k rem, DecodeAuthEip8 (msg @ extra) (privkey self)]"
    by (simp add: E1_def f1 f2)
  have l1: "list_all (\<lambda>e. is_crypto_call e \<or> is_read e) D1"
    unfolding D1_def using decode_authentication_crypto [of w env msg "privkey self"]
    by (simp add: list_all_iff)
  have l2: "list_all (\<lambda>e. is_crypto_call e \<or> is_read e) D2"
    unfolding D2_def using decode_authentication_crypto [of w env "msg @ extra" "privkey self"]
    by (simp add: list_all_iff)
  have lE: "list_all (\<lambda>e. is_crypto_call e \<or> is_read e) E1"
    using l1 l2 by (simp add: E1_def)
  have "\<forall>e \<in> set E1. \<not> is_registration e"
    using lE crypto_or_read_other by (auto simp: list_all_iff)
  then have rE: "filter is_registration E1 = []"
    by (simp add: filter_empty_conv)
  have t1: "trace w1 = trace w @ E1"
    by (simp add: w1_def)
  have e1: "events_since w w1 = E1"
    using t1 by (rule events_since_append)
  have p1: "peer_pool w1 = peer_pool w"
    by (simp add: w1_def)
  have partA: "filter is_read_or_decode (events_since w (snd (receive_handshake env self k w))) =
           [ReaderRead k (ENCRYPTED_AUTH_MSG_LEN env), decoder_call env msg (privkey self),
            ReaderRead k rem, DecodeAuthEip8 (msg @ extra) (privkey self)]"
  proof (cases "fst (decode_authentication env (msg @ extra) (privkey self) w)")
    case (Inl e)
    then have rh: "receive_handshake env self k w = (Inl e, w1)"
      using ra by (simp add: receive_handshake_fail)
    show ?thesis
      by (simp add: rh e1 fE)
  next
    case (Inr p)
    then have rh: "receive_handshake env self k w = complete_handshake env self k (msg @ extra, p) w1"
      using ra by (simp add: receive_handshake_cont)
    obtain r w' where ch: "complete_handshake env self k (msg @ extra, p) w1 = (r, w')"
      by (cases "complete_handshake env self k (msg @ extra, p) w1")
    note fr = complete_handshake_frame [OF ch]
    have t2: "trace w1 = trace w @ events_since w w1"
      by (simp only: e1 t1)
    have t3: "trace w' = trace w1 @ events_since w1 w'"
      using fr by blast
    have ev: "events_since w w' = events_since w w1 @ events_since w1 w'"
      using t2 t3 by (rule events_since_trans)
    have f3: "filter is_read_or_decode (events_since w1 w') = []"
      using fr by blast
    show ?thesis
      by (simp add: rh ch ev e1 fE f3)
  qed
  have partB: "fst (receive_handshake env self k w) = Inl e \<and>
               peer_pool (snd (receive_handshake env self k w)) = peer_pool w \<and>
               filter is_registration (events_since w (snd (receive_handshake env self k w))) = []"
    if "fst (decode_authentication env (msg @ extra) (privkey self) w) = Inl e" for e
  proof -
    from that have rh: "receive_handshake env self k w = (Inl e, w1)"
      using ra by (simp add: receive_handshake_fail)
    show ?thesis
      by (simp add: rh e1 rE p1)
  qed
  have partC: "receive_handshake env self k w = complete_handshake env self k (msg @ extra, p) w1"
    if "fst (decode_authentication env (msg @ extra) (privkey self) w) = Inr p" for p
    using that ra by (simp add: receive_handshake_cont)
  show ?thesis
    using partA partB partC
    unfolding w1_def E1_def D1_def D2_def rem_def by blast
qed

section \<open>Concrete runs\<close>

lemma demo_reader_read:
  "reader_read demo_env (conns (demo_world input) 0) n = demo_read (input, []) n"
  by (simp add: demo_env_def demo_world_def init_world_def)

lemma demo_complete_handshake:
  "complete_handshake demo_env demo_self 0 (msg, eph, nonce, pub) w =
     (Inr (),
      w\<lparr>conns := (conns w)(0 := (fst (conns w 0),
                                  snd (conns w 0) @ 4 # replicate 32 (of_nat (Suc (entropy w))) @ [4])),
        entropy := Suc (Suc (Suc (entropy w))),
        peer_pool := peer_pool w @
          [\<lparr>peer_remote = \<lparr>pubkey = pub, address = \<lparr>ip = ''10.0.0.7'', tcp_port = 30303\<rparr>\<rparr>,
            peer_privkey = PrivateKey [1, 2, 3], peer_conn = 0,
            peer_aes_secret = nonce,
            peer_mac_secret = replicate 32 (of_nat (Suc (entropy w))),
            peer_egress_mac = take 2 msg, peer_ingress_mac = [4, of_nat (Suc (entropy w))],
            peer_chaindb = AsyncChainDB 0, peer_network_id = 1\<rparr>],
        trace := trace w @
          [GetExtraInfo 0, NewAddress ''10.0.0.7'' 30303,
           NewNode pub \<lparr>ip = ''10.0.0.7'', tcp_port = 30303\<rparr>,
           NewHandshakeResponder
             \<lparr>pubkey = pub, address = \<lparr>ip = ''10.0.0.7'', tcp_port = 30303\<rparr>\<rparr>
             (PrivateKey [1, 2, 3]),
           TokenBytes 32,
           CreateAuthAck
             \<lparr>remote = \<lparr>pubkey = pub, address = \<lparr>ip = ''10.0.0.7'', tcp_port = 30303\<rparr>\<rparr>,
              responder_privkey = PrivateKey [1, 2, 3], seed = entropy w\<rparr>
             (replicate 32 (of_nat (Suc (entropy w)))),
           EncryptAuthAck
             \<lparr>remote = \<lparr>pubkey = pub, address = \<lparr>ip = ''10.0.0.7'', tcp_port = 30303\<rparr>\<rparr>,
              responder_privkey = PrivateKey [1, 2, 3], seed = entropy w\<rparr>
             (replicate 32 (of_nat (Suc (entropy w))) @ [4]),
           WriterWrite 0 (4 # replicate 32 (of_nat (Suc (entropy w))) @ [4]),
           WriterDrain 0,
           DeriveSecrets
             \<lparr>remote = \<lparr>pubkey = pub, address = \<lparr>ip = ''10.0.0.7'', tcp_port = 30303\<rparr>\<rparr>,
              responder_privkey = PrivateKey [1, 2, 3], seed = entropy w\<rparr>
             nonce (replicate 32 (of_nat (Suc (entropy w)))) eph msg
             (4 # replicate 32 (of_nat (Suc (entropy w))) @ [4]),
           NewETHPeer
             \<lparr>peer_remote = \<lparr>pubkey = pub, address = \<lparr>ip = ''10.0.0.7'', tcp_port = 30303\<rparr>\<rparr>,
              peer_privkey = PrivateKey [1, 2, 3], peer_conn = 0,
              peer_aes_secret = nonce,
              peer_mac_secret = replicate 32 (of_nat (Suc (entropy w))),
              peer_egress_mac = take 2 msg, peer_ingress_mac = [4, of_nat (Suc (entropy w))],
              peer_chaindb = AsyncChainDB 0, peer_network_id = 1\<rparr>,
           AddPeer]\<rparr>)"
  by (simp add: complete_handshake_def op_defs Let_def demo_env_def demo_self_def)

lemma demo_env_with_id: "demo_env = demo_env_with Inr (\<lambda>p x. (Inr (), p @ [x]))"
  by (simp add: demo_env_with_def demo_env_def)


lemma demo_read_first:
  "length msg = 307 \<Longrightarrow>
     reader_read (demo_env_with f g) (conns (demo_world (msg @ rest)) 0)
       (ENCRYPTED_AUTH_MSG_LEN (demo_env_with f g)) = (Inr msg, (rest, []))"
  by (simp add: demo_env_with_def demo_env_def demo_world_def init_world_def demo_read_def)

lemma demo_read_rest:
  "reader_read (demo_env_with f g) (rest, []) n =
     (if n < 0 then (Inr rest, ([], [])) else (Inr (take (nat n) rest), (drop (nat n) rest, [])))"
  by (simp add: demo_env_with_def demo_env_def demo_read_def)

lemma demo_decode_plain_msg:
  "decode_authentication (demo_env_with f g) demo_plain_msg (PrivateKey [1, 2, 3]) w =
     (Inr (PublicKey [10, 11, 12, 11, 8, 57], [30, 31, 32], PublicKey [20, 21, 22]),
      w\<lparr>trace := trace w @
         [DecodeAuthPlain demo_plain_msg (PrivateKey [1, 2, 3]),
          EcdhAgree (PrivateKey [1, 2, 3]) (PublicKey [20, 21, 22]),
          Sxor [21, 23, 25] [30, 31, 32],
          RecoverPublicKey (Signature [10, 11, 12]) [11, 8, 57]]\<rparr>)"
  by (simp add: decode_authentication_def bindE_call ret_def demo_env_with_def demo_env_def
        demo_payload_def demo_sxor_def)
     (simp add: demo_plain_msg_def)

lemma demo_decode_rejected:
  "length msg = 307 \<Longrightarrow> take 1 msg \<noteq> [4] \<Longrightarrow>
   decode_authentication demo_env msg k w =
     (Inl (DecryptionError ''Failed to verify tag''),
      w\<lparr>trace := trace w @ [DecodeAuthPlain msg k]\<rparr>)"
  by (simp add: decode_authentication_def bindE_call demo_env_def demo_payload_def)

lemma demo_decode_eip8:
  "length msg = 307 \<Longrightarrow> extra \<noteq> [] \<Longrightarrow>
   take 10 (drop 2 msg) = [4, 10, 11, 12, 20, 21, 22, 30, 31, 32] \<Longrightarrow>
   decode_authentication demo_env (msg @ extra) (PrivateKey [1, 2, 3]) w =
     (Inr (PublicKey [10, 11, 12, 11, 8, 57], [30, 31, 32], PublicKey [20, 21, 22]),
      w\<lparr>trace := trace w @
         [DecodeAuthEip8 (msg @ extra) (PrivateKey [1, 2, 3]),
          EcdhAgree (PrivateKey [1, 2, 3]) (PublicKey [20, 21, 22]),
          Sxor [21, 23, 25] [30, 31, 32],
          RecoverPublicKey (Signature [10, 11, 12]) [11, 8, 57]]\<rparr>)"
proof -
  assume len: "length msg = 307" and ne: "extra \<noteq> []"
    and pre: "take 10 (drop 2 msg) = [4, 10, 11, 12, 20, 21, 22, 30, 31, 32]"
  have b: "take 10 (drop 2 (msg @ extra)) = [4, 10, 11, 12, 20, 21, 22, 30, 31, 32]"
    using len pre by simp
  have t1: "take 1 (drop 2 (msg @ extra)) = [4]"
    using arg_cong [OF b, of "take 1"] by (simp add: take_take del: drop_append take_append)
  have t2: "take 3 (drop 1 (drop 2 (msg @ extra))) = [10, 11, 12]"
    using arg_cong [OF b, of "\<lambda>xs. take 3 (drop 1 xs)"]
    by (simp add: drop_take take_take del: drop_append take_append drop_drop)
  have t3: "take 3 (drop 4 (drop 2 (msg @ extra))) = [20, 21, 22]"
    using arg_cong [OF b, of "\<lambda>xs. take 3 (drop 4 xs)"]
    by (simp add: drop_take take_take del: drop_append take_append drop_drop)
  have t4: "take 3 (drop 7 (drop 2 (msg @ extra))) = [30, 31, 32]"
    using arg_cong [OF b, of "\<lambda>xs. take 3 (drop 7 xs)"]
    by (simp add: drop_take take_take del: drop_append take_append drop_drop)
  have gt: "int (length (msg @ extra)) > 307"
    using len ne by (cases extra) simp_all
  show ?thesis
    using gt t1 t2 t3 t4
    by (simp add: decode_authentication_def bindE_call ret_def demo_env_def
          demo_payload_def demo_sxor_def del: drop_append take_append drop_drop length_append)
qed

lemma demo_consts [simp]:
  "ENCRYPTED_AUTH_MSG_LEN (demo_env_with f g) = 307" "ENCRYPTED_AUTH_MSG_LEN demo_env = 307"
  "privkey demo_self = PrivateKey [1, 2, 3]"
  "trace (demo_world input) = []" "peer_pool (demo_world input) = []"
  "entropy (demo_world input) = 0" "conns (demo_world input) 0 = (input, [])"
  by (simp_all add: demo_env_with_def demo_env_def demo_self_def demo_world_def init_world_def)

lemma demo_big_endian:
  "big_endian_to_int (take 2 demo_bad_msg) = 357"
  "big_endian_to_int (take 2 demo_short_prefix_msg) = 0"
  "big_endian_to_int (take 2 demo_eip8_head) = 357"
  by (simp_all add: big_endian_to_int_def demo_bad_msg_def demo_short_prefix_msg_def
        demo_eip8_head_def)

lemma demo_rejected:
  "take 1 demo_bad_msg \<noteq> [4]" "take 1 demo_short_prefix_msg \<noteq> [4]"
  "take 1 demo_eip8_head \<noteq> [4]"
  by (simp_all add: demo_bad_msg_def demo_short_prefix_msg_def demo_eip8_head_def)

lemma demo_eip8_payload:
  "take 10 (drop 2 demo_short_prefix_msg) = [4, 10, 11, 12, 20, 21, 22, 30, 31, 32]"
  "take 10 (drop 2 demo_eip8_head) = [4, 10, 11, 12, 20, 21, 22, 30, 31, 32]"
  by (simp_all add: demo_short_prefix_msg_def demo_eip8_head_def)

lemma demo_phase1_plain:
  "receive_auth_init (demo_env_with f g) demo_self 0 (demo_world demo_plain_msg) =
     (Inr (demo_plain_msg, PublicKey [10, 11, 12, 11, 8, 57], [30, 31, 32], PublicKey [20, 21, 22]),
      (demo_world demo_plain_msg)
        \<lparr>conns := (conns (demo_world demo_plain_msg))(0 := ([], [])),
         trace := [ReaderRead 0 307,
                   DecodeAuthPlain demo_plain_msg (PrivateKey [1, 2, 3]),
                   EcdhAgree (PrivateKey [1, 2, 3]) (PublicKey [20, 21, 22]),
                   Sxor [21, 23, 25] [30, 31, 32],
                   RecoverPublicKey (Signature [10, 11, 12]) [11, 8, 57]]\<rparr>)"
proof -
  have rd1: "reader_read (demo_env_with f g) (conns (demo_world demo_plain_msg) 0)
               (ENCRYPTED_AUTH_MSG_LEN (demo_env_with f g)) = (Inr demo_plain_msg, ([], []))"
    using demo_read_first [of demo_plain_msg f g "[]"] by simp
  have nd: "\<forall>x. fst (decode_authentication (demo_env_with f g) demo_plain_msg (privkey demo_self)
                        (demo_world demo_plain_msg)) \<noteq> Inl (DecryptionError x)"
    by (simp add: demo_decode_plain_msg)
  show ?thesis
    using receive_auth_init_no_fallback [OF rd1 nd]
    by (simp add: demo_decode_plain_msg events_since_def)
qed

lemma demo_run_short_read:
  "receive_handshake demo_env demo_self 0 (demo_world (replicate 10 0)) =
     (Inl (ValueError ''Auth msg too short: 10''),
      (demo_world (replicate 10 0))
        \<lparr>conns := (conns (demo_world (replicate 10 0)))(0 := ([], [])),
         trace := [ReaderRead 0 307]\<rparr>)"
proof -
  have rd1: "reader_read demo_env (conns (demo_world (replicate 10 0)) 0)
               (ENCRYPTED_AUTH_MSG_LEN demo_env) = (Inr (replicate 10 0), ([], []))"
    by (simp add: demo_env_def demo_read_def)
  have d: "decode_authentication demo_env (replicate 10 0) (privkey demo_self)
             (demo_world (replicate 10 0)) =
           (Inl (ValueError ''Auth msg too short: 10''), demo_world (replicate 10 0))"
    by (simp add: decode_authentication_def str_nat_10)
  have nd: "\<forall>x. fst (decode_authentication demo_env (replicate 10 0) (privkey demo_self)
                        (demo_world (replicate 10 0))) \<noteq> Inl (DecryptionError x)"
    unfolding d by simp
  show ?thesis
    using receive_auth_init_no_fallback [OF rd1 nd]
    unfolding d by (simp add: events_since_def receive_handshake_fail)
qed


lemma demo_run_plain:
  "receive_handshake (demo_env_with f g) demo_self 0 (demo_world demo_plain_msg) =
     complete_handshake (demo_env_with f g) demo_self 0
       (demo_plain_msg, PublicKey [10, 11, 12, 11, 8, 57], [30, 31, 32], PublicKey [20, 21, 22])
       ((demo_world demo_plain_msg)
          \<lparr>conns := (conns (demo_world demo_plain_msg))(0 := ([], [])),
           trace := [ReaderRead 0 307,
                     DecodeAuthPlain demo_plain_msg (PrivateKey [1, 2, 3]),
                     EcdhAgree (PrivateKey [1, 2, 3]) (PublicKey [20, 21, 22]),
                     Sxor [21, 23, 25] [30, 31, 32],
                     RecoverPublicKey (Signature [10, 11, 12]) [11, 8, 57]]\<rparr>)"
  by (rule receive_handshake_cont) (rule demo_phase1_plain)

lemma demo_run_extended:
  assumes len: "length msg = 307" and rej: "take 1 msg \<noteq> [4]"
    and pay: "take 10 (drop 2 msg) = [4, 10, 11, 12, 20, 21, 22, 30, 31, 32]"
    and ne: "extra \<noteq> []"
    and rem: "big_endian_to_int (take 2 msg) - 307 + 2 = n"
    and all: "n < 0 \<or> int (length extra) \<le> n"
  shows "receive_handshake demo_env demo_self 0 (demo_world (msg @ extra)) =
     complete_handshake demo_env demo_self 0
       (msg @ extra, PublicKey [10, 11, 12, 11, 8, 57], [30, 31, 32], PublicKey [20, 21, 22])
       ((demo_world (msg @ extra))
          \<lparr>conns := (conns (demo_world (msg @ extra)))(0 := ([], [])),
           trace := [ReaderRead 0 307, DecodeAuthPlain msg (PrivateKey [1, 2, 3]),
                     ReaderRead 0 n,
                     DecodeAuthEip8 (msg @ extra) (PrivateKey [1, 2, 3]),
                     EcdhAgree (PrivateKey [1, 2, 3]) (PublicKey [20, 21, 22]),
                     Sxor [21, 23, 25] [30, 31, 32],
                     RecoverPublicKey (Signature [10, 11, 12]) [11, 8, 57]]\<rparr>)"
proof -
  have rd1: "reader_read demo_env (conns (demo_world (msg @ extra)) 0)
               (ENCRYPTED_AUTH_MSG_LEN demo_env) = (Inr msg, (extra, []))"
    using demo_read_first [OF len, of Inr "\<lambda>p x. (Inr (), p @ [x])" extra]
    by (simp only: demo_env_with_id [symmetric])
  note d = demo_decode_rejected [OF len rej, of "PrivateKey [1, 2, 3]" "demo_world (msg @ extra)"]
  have d1: "fst (decode_authentication demo_env msg (privkey demo_self) (demo_world (msg @ extra)))
              = Inl (DecryptionError ''Failed to verify tag'')"
    by (simp add: d)
  have rd2: "reader_read demo_env (extra, [])
               (big_endian_to_int (take 2 msg) - ENCRYPTED_AUTH_MSG_LEN demo_env + 2)
               = (Inr extra, ([], []))"
    using all rem by (auto simp: demo_env_def demo_read_def)
  note d2 = demo_decode_eip8 [OF len ne pay, of "demo_world (msg @ extra)"]
  have "receive_auth_init demo_env demo_self 0 (demo_world (msg @ extra)) =
          (Inr (msg @ extra, PublicKey [10, 11, 12, 11, 8, 57], [30, 31, 32], PublicKey [20, 21, 22]),
           (demo_world (msg @ extra))
             \<lparr>conns := (conns (demo_world (msg @ extra)))(0 := ([], [])),
              trace := [ReaderRead 0 307, DecodeAuthPlain msg (PrivateKey [1, 2, 3]),
                     ReaderRead 0 n,
                     DecodeAuthEip8 (msg @ extra) (PrivateKey [1, 2, 3]),
                     EcdhAgree (PrivateKey [1, 2, 3]) (PublicKey [20, 21, 22]),
                     Sxor [21, 23, 25] [30, 31, 32],
                     RecoverPublicKey (Signature [10, 11, 12]) [11, 8, 57]]\<rparr>)"
    using receive_auth_init_fallback [OF rd1 d1 rd2] rem
    by (simp add: d d2 events_since_def del: append_assoc)
  then show ?thesis
    by (rule receive_handshake_cont)
qed

lemma registration_mem:
  "is_registration x \<Longrightarrow> x \<in> set xs \<longleftrightarrow> x \<in> set (filter is_registration xs)"
  by simp

lemma demo_run_peer_fails:
  "fst (receive_handshake (demo_env_with (\<lambda>a. Inl (ValueError ''Invalid key size'')) g)
          demo_self 0 (demo_world demo_plain_msg)) = Inl (ValueError ''Invalid key size'') \<and>
   peer_pool (snd (receive_handshake (demo_env_with (\<lambda>a. Inl (ValueError ''Invalid key size'')) g)
          demo_self 0 (demo_world demo_plain_msg))) = [] \<and>
   filter is_registration (events_since (demo_world demo_plain_msg)
     (snd (receive_handshake (demo_env_with (\<lambda>a. Inl (ValueError ''Invalid key size'')) g)
          demo_self 0 (demo_world demo_plain_msg)))) = [NewETHPeer demo_peer]"
  unfolding demo_run_plain
  by (simp add: complete_handshake_def op_defs Let_def demo_env_with_def demo_env_def
        demo_self_def events_since_def demo_peer_def)
     (simp add: demo_plain_msg_def)

lemma demo_run_pool_fails:
  "fst (receive_handshake
          (demo_env_with Inr (\<lambda>p x. (Inl (OtherException ''pool is stopping''), p)))
          demo_self 0 (demo_world demo_plain_msg)) = Inl (OtherException ''pool is stopping'') \<and>
   peer_pool (snd (receive_handshake
          (demo_env_with Inr (\<lambda>p x. (Inl (OtherException ''pool is stopping''), p)))
          demo_self 0 (demo_world demo_plain_msg))) = [] \<and>
   filter is_registration (events_since (demo_world demo_plain_msg)
     (snd (receive_handshake
          (demo_env_with Inr (\<lambda>p x. (Inl (OtherException ''pool is stopping''), p)))
          demo_self 0 (demo_world demo_plain_msg)))) = [NewETHPeer demo_peer, AddPeer]"
  unfolding demo_run_plain
  by (simp add: complete_handshake_def op_defs Let_def demo_env_with_def demo_env_def
        demo_self_def events_since_def demo_peer_def)
     (simp add: demo_plain_msg_def)


section \<open>Properties of decode_authentication\<close>

text \<open>
  C5. A ciphertext shorter than \<open>ENCRYPTED_AUTH_MSG_LEN\<close> makes
  \<open>decode_authentication\<close> raise the length error (a \<open>ValueError\<close>), and the world is
  left as it was: no decoder, no ECDH agreement and no key recovery has been called.
\<close>

theorem decode_authentication_too_short:
  "int (length ciphertext) < ENCRYPTED_AUTH_MSG_LEN env \<Longrightarrow>
   decode_authentication env ciphertext privk w =
     (Inl (ValueError (''Auth msg too short: '' @ str_nat (length ciphertext))), w)"
  by (simp add: decode_authentication_def)

text \<open>C5, at a buffer of ten bytes: the message is \<open>Auth msg too short: 10\<close>.\<close>

theorem decode_authentication_too_short_witness:
  "int (length (replicate 10 (0 :: 8 word))) < ENCRYPTED_AUTH_MSG_LEN demo_env \<and>
   decode_authentication demo_env (replicate 10 0) (PrivateKey [1, 2, 3]) (demo_world []) =
     (Inl (ValueError ''Auth msg too short: 10''), demo_world [])"
  using decode_authentication_too_short
          [of "replicate 10 0" demo_env "PrivateKey [1, 2, 3]" "demo_world []"]
  by (simp add: demo_env_def str_nat_10)

text \<open>
  C6. \<open>decode_authentication\<close> chooses the decoder by the length of the ciphertext alone:
  below the minimum no decoder is called; at the minimum the plain decoder is the one
  decoder called, and its exception is the result; above the minimum the extended decoder
  is the one decoder called, and its exception is the result.
\<close>

theorem decode_authentication_dispatch:
  "(int (length c) < ENCRYPTED_AUTH_MSG_LEN env \<longrightarrow>
      filter is_decoder_call (events_since w (snd (decode_authentication env c k w))) = []) \<and>
   (int (length c) = ENCRYPTED_AUTH_MSG_LEN env \<longrightarrow>
      filter is_decoder_call (events_since w (snd (decode_authentication env c k w)))
        = [DecodeAuthPlain c k] \<and>
      (\<forall>e. decode_auth_plain env c k = Inl e \<longrightarrow>
           fst (decode_authentication env c k w) = Inl e)) \<and>
   (int (length c) > ENCRYPTED_AUTH_MSG_LEN env \<longrightarrow>
      filter is_decoder_call (events_since w (snd (decode_authentication env c k w)))
        = [DecodeAuthEip8 c k] \<and>
      (\<forall>e. decode_auth_eip8 env c k = Inl e \<longrightarrow>
           fst (decode_authentication env c k w) = Inl e))"
  by (auto simp: decode_authentication_def bindE_call ret_def events_since_def
           split: sum.splits prod.splits)

text \<open>
  C6, at three buffers the stand-in decoders reject: ten bytes (no decoder called), 307
  bytes (the plain decoder) and 308 bytes (the extended decoder).
\<close>

theorem decode_authentication_dispatch_witness:
  "(int (length (replicate 10 (0 :: 8 word))) < ENCRYPTED_AUTH_MSG_LEN demo_env \<and>
    filter is_decoder_call (events_since (demo_world [])
      (snd (decode_authentication demo_env (replicate 10 0) (PrivateKey [1, 2, 3])
              (demo_world [])))) = []) \<and>
   (int (length demo_bad_msg) = ENCRYPTED_AUTH_MSG_LEN demo_env \<and>
    decode_auth_plain demo_env demo_bad_msg (PrivateKey [1, 2, 3])
      = Inl (DecryptionError ''Failed to verify tag'') \<and>
    filter is_decoder_call (events_since (demo_world [])
      (snd (decode_authentication demo_env demo_bad_msg (PrivateKey [1, 2, 3])
              (demo_world [])))) = [DecodeAuthPlain demo_bad_msg (PrivateKey [1, 2, 3])] \<and>
    fst (decode_authentication demo_env demo_bad_msg (PrivateKey [1, 2, 3]) (demo_world []))
      = Inl (DecryptionError ''Failed to verify tag'')) \<and>
   (int (length (demo_bad_msg @ [0])) > ENCRYPTED_AUTH_MSG_LEN demo_env \<and>
    decode_auth_eip8 demo_env (demo_bad_msg @ [0]) (PrivateKey [1, 2, 3])
      = Inl (DecryptionError ''Failed to verify tag'') \<and>
    filter is_decoder_call (events_since (demo_world [])
      (snd (decode_authentication demo_env (demo_bad_msg @ [0]) (PrivateKey [1, 2, 3])
              (demo_world [])))) = [DecodeAuthEip8 (demo_bad_msg @ [0]) (PrivateKey [1, 2, 3])] \<and>
    fst (decode_authentication demo_env (demo_bad_msg @ [0]) (PrivateKey [1, 2, 3])
           (demo_world []))
      = Inl (DecryptionError ''Failed to verify tag''))"
proof -
  have len: "ENCRYPTED_AUTH_MSG_LEN demo_env = 307"
    by (simp add: demo_env_def)
  have plain: "decode_auth_plain demo_env demo_bad_msg (PrivateKey [1, 2, 3])
                 = Inl (DecryptionError ''Failed to verify tag'')"
    by (simp add: demo_env_def demo_payload_def demo_bad_msg_def)
  have eip8: "decode_auth_eip8 demo_env (demo_bad_msg @ [0]) (PrivateKey [1, 2, 3])
                = Inl (DecryptionError ''Failed to verify tag'')"
    by (simp add: demo_env_def demo_payload_def demo_bad_msg_def)
  show ?thesis
    using decode_authentication_dispatch
            [of "replicate 10 0" demo_env "demo_world []" "PrivateKey [1, 2, 3]"]
          decode_authentication_dispatch
            [of demo_bad_msg demo_env "demo_world []" "PrivateKey [1, 2, 3]"]
          decode_authentication_dispatch
            [of "demo_bad_msg @ [0]" demo_env "demo_world []" "PrivateKey [1, 2, 3]"]
    by (simp add: len plain eip8)
qed

text \<open>
  C2, as the specification states it, fails: the code applies no hash between the XOR and
  the key recovery. With a hash that is not the identity, the dispatch worded by the
  specification recovers another key than the code does on the same 307-byte message.
\<close>

theorem decode_authentication_hash_counterexample:
  "fst (decode_authentication demo_env demo_plain_msg (PrivateKey [1, 2, 3]) (demo_world []))
     = Inr (PublicKey [10, 11, 12, 11, 8, 57], [30, 31, 32], PublicKey [20, 21, 22]) \<and>
   fst (decode_authentication_spec demo_hash demo_env demo_plain_msg (PrivateKey [1, 2, 3])
          (demo_world []))
     = Inr (PublicKey [10, 11, 12, 57, 8, 11], [30, 31, 32], PublicKey [20, 21, 22])"
  by (simp add: decode_authentication_def decode_authentication_spec_def bindE_call ret_def
        demo_env_def demo_plain_msg_def demo_payload_def demo_sxor_def demo_hash_def)

text \<open>
  C2, amended. \<open>decode_authentication\<close> returns \<open>(ephem_pubkey, initiator_nonce,
  initiator_pubkey)\<close> exactly when the ciphertext has at least the minimum length, the
  decoder chosen by the length returns a signature, that public key and that nonce, the
  ECDH agreement of the local private key and the initiator's public key returns a shared
  secret, its XOR with the nonce is returned, and the recovery of the public key from the
  signature, with the XOR itself as the message hash, returns \<open>ephem_pubkey\<close>. These
  four calls, in this order, are all the calls made: nothing hashes the XOR.
\<close>

theorem decode_authentication_recovers_from_xor:
  "decode_authentication env c k w
     = (Inr (ephem_pubkey, initiator_nonce, initiator_pubkey), w') \<longleftrightarrow>
   (ENCRYPTED_AUTH_MSG_LEN env \<le> int (length c) \<and>
    (\<exists>sig version shared_secret x.
       (if int (length c) = ENCRYPTED_AUTH_MSG_LEN env then decode_auth_plain env c k
        else decode_auth_eip8 env c k) = Inr (sig, initiator_pubkey, initiator_nonce, version) \<and>
       ecdh_agree env k initiator_pubkey = Inr shared_secret \<and>
       sxor env shared_secret initiator_nonce = Inr x \<and>
       recover_public_key_from_msg_hash env sig x = Inr ephem_pubkey \<and>
       w' = w\<lparr>trace := trace w @
              [if int (length c) = ENCRYPTED_AUTH_MSG_LEN env then DecodeAuthPlain c k
               else DecodeAuthEip8 c k,
               EcdhAgree k initiator_pubkey, Sxor shared_secret initiator_nonce,
               RecoverPublicKey sig x]\<rparr>))"
  by (auto simp: decode_authentication_def bindE_call ret_def split: sum.splits prod.splits)

text \<open>
  C2, amended, at the 307-byte message the plain stand-in decodes: the shared secret
  \<open>[21, 23, 25]\<close> XOR the nonce \<open>[30, 31, 32]\<close> is \<open>[11, 8, 57]\<close>, and the recovery is
  called with exactly that.
\<close>

theorem decode_authentication_recovers_from_xor_witness:
  "decode_authentication demo_env demo_plain_msg (PrivateKey [1, 2, 3]) (demo_world [])
     = (Inr (PublicKey [10, 11, 12, 11, 8, 57], [30, 31, 32], PublicKey [20, 21, 22]),
        (demo_world [])\<lparr>trace :=
           [DecodeAuthPlain demo_plain_msg (PrivateKey [1, 2, 3]),
            EcdhAgree (PrivateKey [1, 2, 3]) (PublicKey [20, 21, 22]),
            Sxor [21, 23, 25] [30, 31, 32],
            RecoverPublicKey (Signature [10, 11, 12]) [11, 8, 57]]\<rparr>)"
  using decode_authentication_recovers_from_xor
          [of demo_env demo_plain_msg "PrivateKey [1, 2, 3]" "demo_world []"
              "PublicKey [10, 11, 12, 11, 8, 57]" "[30, 31, 32]" "PublicKey [20, 21, 22]"
              "(demo_world [])\<lparr>trace :=
                 [DecodeAuthPlain demo_plain_msg (PrivateKey [1, 2, 3]),
                  EcdhAgree (PrivateKey [1, 2, 3]) (PublicKey [20, 21, 22]),
                  Sxor [21, 23, 25] [30, 31, 32],
                  RecoverPublicKey (Signature [10, 11, 12]) [11, 8, 57]]\<rparr>"]
  by (simp add: demo_env_def demo_plain_msg_def demo_payload_def demo_sxor_def
        demo_world_def init_world_def)

section \<open>Properties of Server.stop\<close>

text \<open>
  C9. On a server that \<open>start()\<close> has given its listening socket, \<open>stop()\<close> makes its
  calls in this order: after the log line, it triggers the cancel token, closes the
  listening socket, waits for the socket to be released, and asks the peer pool to stop.
  The token is then set, the socket closed and released, and the result of \<open>stop()\<close> is
  the result of the pool's stop.
\<close>

theorem stop_order:
  "u_server w = Some l \<Longrightarrow> peer_pool_stop env (peer_pool w) = (r, p') \<Longrightarrow>
   stop env self w =
     (r, w\<lparr>cancel_token := True,
           u_server := Some (l\<lparr>closing := True, released := True\<rparr>),
           peer_pool := p',
           trace := trace w @ [LogInfo ''Closing server...'', TokenTrigger, ServerClose,
                               ServerWaitClosed, PeerPoolStop]\<rparr>)"
  by (simp add: stop_def bindE_def log_call_def cancel_token_trigger_def server_close_def
        server_wait_closed_def peer_pool_stop_op_def)

text \<open>C9, on the world \<open>start()\<close> leaves: the four calls follow the two earlier records.\<close>

theorem stop_order_witness:
  "u_server (snd (start demo_env demo_self (demo_world [])))
     = Some \<lparr>host = ''0.0.0.0'', port = 30303, closing = False, released = False\<rparr> \<and>
   peer_pool_stop demo_env (peer_pool (snd (start demo_env demo_self (demo_world []))))
     = (Inr (), []) \<and>
   fst (stop demo_env demo_self (snd (start demo_env demo_self (demo_world [])))) = Inr () \<and>
   trace (snd (stop demo_env demo_self (snd (start demo_env demo_self (demo_world [])))))
     = [StartServer ''0.0.0.0'' 30303, LogInfo ''Closing server...'', TokenTrigger,
        ServerClose, ServerWaitClosed, PeerPoolStop] \<and>
   cancel_token (snd (stop demo_env demo_self (snd (start demo_env demo_self (demo_world [])))))"
proof -
  have a: "u_server (snd (start demo_env demo_self (demo_world [])))
             = Some \<lparr>host = ''0.0.0.0'', port = 30303, closing = False, released = False\<rparr>"
    by (simp add: start_demo)
  have b: "peer_pool_stop demo_env (peer_pool (snd (start demo_env demo_self (demo_world []))))
             = (Inr (), [])"
    unfolding start_demo by (simp add: demo_env_def demo_world_def init_world_def)
  show ?thesis
    using a b stop_order [OF a b, of demo_self]
    by (simp add: start_demo)
qed

text \<open>
  C10, as stated, fails: \<open>stop()\<close> on a server that was never started raises at
  \<open>self._server.close()\<close>, but only after the cancel token has been triggered. The token,
  unset before, is set after the failed call.
\<close>

theorem stop_unstarted_counterexample:
  "\<not> cancel_token (demo_world []) \<and> u_server (demo_world []) = None \<and>
   fst (stop demo_env demo_self (demo_world [])) = Inl (none_has_no_attribute ''close'') \<and>
   cancel_token (snd (stop demo_env demo_self (demo_world []))) \<and>
   trace (snd (stop demo_env demo_self (demo_world [])))
     = [LogInfo ''Closing server...'', TokenTrigger]"
  by (simp add: stop_def bindE_def log_call_def cancel_token_trigger_def server_close_def
        demo_world_def init_world_def)

text \<open>
  C10, amended. While \<open>_server\<close> is \<open>None\<close>, as it is until \<open>start()\<close> assigns it,
  \<open>stop()\<close> logs, triggers the cancel token and then raises \<open>AttributeError\<close> at
  \<open>self._server.close()\<close>: the socket is neither closed nor awaited, the peer pool is not
  asked to stop and keeps its state, and the token is left triggered.
\<close>

theorem stop_unstarted:
  "u_server w = None \<Longrightarrow>
   stop env self w =
     (Inl (none_has_no_attribute ''close''),
      w\<lparr>cancel_token := True,
        trace := trace w @ [LogInfo ''Closing server...'', TokenTrigger]\<rparr>)"
  by (simp add: stop_def bindE_def log_call_def cancel_token_trigger_def server_close_def)

text \<open>C10, amended, on the world right after \<open>__init__\<close>.\<close>

theorem stop_unstarted_witness:
  "u_server (init_world ([] :: ETHPeer_args list) (\<lambda>k. ([], []) :: demo_conn) 0) = None \<and>
   stop demo_env demo_self (init_world [] (\<lambda>k. ([], [])) 0) =
     (Inl (none_has_no_attribute ''close''),
      (init_world [] (\<lambda>k. ([], [])) 0)
        \<lparr>cancel_token := True, trace := [LogInfo ''Closing server...'', TokenTrigger]\<rparr>)"
  using stop_unstarted [of "init_world ([] :: ETHPeer_args list) (\<lambda>k. ([], []) :: demo_conn) 0"
                           demo_env demo_self]
  by (simp add: init_world_def)

section \<open>Properties of Server.receive_handshake\<close>

text \<open>
  C1. Let the first read return a buffer of exactly \<open>ENCRYPTED_AUTH_MSG_LEN\<close> bytes
  that the plain decoder rejects with a decryption error, and let the connection hold
  no further byte (the second read returns nothing, or raises). Then the handshake ends
  with an exception, the decryption error of the plain decoder or the error of the read.
  The calls made are the first read, the plain decoder, the second read and, if that
  returned, the plain decoder once more on the same buffer: the extended decoder is not
  called, no peer is built and the pool is as before.
\<close>

theorem receive_handshake_min_length_terminal:
  assumes rd1: "reader_read env (conns w k) (ENCRYPTED_AUTH_MSG_LEN env) = (Inr msg, c1)"
    and len: "int (length msg) = ENCRYPTED_AUTH_MSG_LEN env"
    and dec: "decode_auth_plain env msg (privkey self) = Inl (DecryptionError x)"
    and rd2: "reader_read env c1
                (big_endian_to_int (take 2 msg) - ENCRYPTED_AUTH_MSG_LEN env + 2) = (r2, c2)"
    and nomore: "\<forall>extra. r2 = Inr extra \<longrightarrow> extra = []"
  shows "receive_handshake env self k w =
           (case r2 of Inl e \<Rightarrow> Inl e | Inr extra \<Rightarrow> Inl (DecryptionError x),
            w\<lparr>conns := (conns w)(k := c2),
              trace := trace w @
                 [ReaderRead k (ENCRYPTED_AUTH_MSG_LEN env),
                  DecodeAuthPlain msg (privkey self),
                  ReaderRead k (big_endian_to_int (take 2 msg) - ENCRYPTED_AUTH_MSG_LEN env + 2)]
                 @ (case r2 of
                      Inl e \<Rightarrow> []
                    | Inr extra \<Rightarrow> [DecodeAuthPlain msg (privkey self)])\<rparr>)"
proof -
  have d: "decode_authentication env msg (privkey self) w =
             (Inl (DecryptionError x), w\<lparr>trace := trace w @ [DecodeAuthPlain msg (privkey self)]\<rparr>)"
    using len dec by (simp add: decode_authentication_def bindE_call)
  have d1: "fst (decode_authentication env msg (privkey self) w) = Inl (DecryptionError x)"
    by (simp add: d)
  have ev: "events_since w (snd (decode_authentication env msg (privkey self) w))
              = [DecodeAuthPlain msg (privkey self)]"
    by (simp add: d events_since_def)
  show ?thesis
    using receive_handshake_fallback_no_bytes [OF rd1 d1 rd2 nomore]
    by (cases r2) (simp_all add: ev)
qed

text \<open>
  C1, on a connection that holds the 307 bytes of \<open>demo_bad_msg\<close> and nothing else: the
  second read asks for 52 bytes and gets none.
\<close>

theorem receive_handshake_min_length_terminal_witness:
  "reader_read demo_env (conns (demo_world demo_bad_msg) 0) (ENCRYPTED_AUTH_MSG_LEN demo_env)
     = (Inr demo_bad_msg, ([], [])) \<and>
   int (length demo_bad_msg) = ENCRYPTED_AUTH_MSG_LEN demo_env \<and>
   decode_auth_plain demo_env demo_bad_msg (privkey demo_self)
     = Inl (DecryptionError ''Failed to verify tag'') \<and>
   reader_read demo_env ([], [])
     (big_endian_to_int (take 2 demo_bad_msg) - ENCRYPTED_AUTH_MSG_LEN demo_env + 2)
     = (Inr [], ([], [])) \<and>
   receive_handshake demo_env demo_self 0 (demo_world demo_bad_msg) =
     (Inl (DecryptionError ''Failed to verify tag''),
      (demo_world demo_bad_msg)
        \<lparr>conns := (conns (demo_world demo_bad_msg))(0 := ([], [])),
         trace := [ReaderRead 0 307, DecodeAuthPlain demo_bad_msg (PrivateKey [1, 2, 3]),
                   ReaderRead 0 52, DecodeAuthPlain demo_bad_msg (PrivateKey [1, 2, 3])]\<rparr>)"
proof -
  have rd1: "reader_read demo_env (conns (demo_world demo_bad_msg) 0)
               (ENCRYPTED_AUTH_MSG_LEN demo_env) = (Inr demo_bad_msg, ([], []))"
    by (simp add: demo_env_def demo_read_def)
  have len: "int (length demo_bad_msg) = ENCRYPTED_AUTH_MSG_LEN demo_env"
    by simp
  have dec: "decode_auth_plain demo_env demo_bad_msg (privkey demo_self)
               = Inl (DecryptionError ''Failed to verify tag'')"
    using demo_rejected(1) by (simp add: demo_env_def demo_payload_def)
  have rd2: "reader_read demo_env ([], [])
               (big_endian_to_int (take 2 demo_bad_msg) - ENCRYPTED_AUTH_MSG_LEN demo_env + 2)
               = (Inr [], ([], []))"
    by (simp add: demo_env_def demo_read_def)
  have nomore: "\<forall>extra. (Inr [] :: error + bytes) = Inr extra \<longrightarrow> extra = []"
    by simp
  show ?thesis
    using receive_handshake_min_length_terminal [OF rd1 len dec rd2 nomore] rd1 len dec rd2
    by (simp add: demo_big_endian)
qed




text \<open>
  C4, as stated, fails: the first two bytes of \<open>demo_short_prefix_msg\<close> declare 0, the
  count for the second read is -305, and \<open>read\<close> with a negative count returns all that
  is left, here three more bytes. The buffer is then longer than the minimum, the
  extended decoder accepts it, the handshake succeeds and a peer is registered.
\<close>

theorem receive_handshake_negative_remaining_counterexample:
  "big_endian_to_int (take 2 demo_short_prefix_msg) - ENCRYPTED_AUTH_MSG_LEN demo_env + 2 = - 305 \<and>
   fst (receive_handshake demo_env demo_self 0 (demo_world (demo_short_prefix_msg @ [1, 2, 3])))
     = Inr () \<and>
   length (peer_pool
     (snd (receive_handshake demo_env demo_self 0 (demo_world (demo_short_prefix_msg @ [1, 2, 3])))))
     = 1 \<and>
   filter is_read_or_decode (events_since (demo_world (demo_short_prefix_msg @ [1, 2, 3]))
     (snd (receive_handshake demo_env demo_self 0 (demo_world (demo_short_prefix_msg @ [1, 2, 3])))))
     = [ReaderRead 0 307, DecodeAuthPlain demo_short_prefix_msg (PrivateKey [1, 2, 3]),
        ReaderRead 0 (- 305),
        DecodeAuthEip8 (demo_short_prefix_msg @ [1, 2, 3]) (PrivateKey [1, 2, 3])]"
proof -
  have len: "length demo_short_prefix_msg = 307"
    by simp
  have ne: "[1, 2, 3 :: 8 word] \<noteq> []"
    by simp
  have rem: "big_endian_to_int (take 2 demo_short_prefix_msg) - 307 + 2 = - 305"
    by (simp add: demo_big_endian)
  have all: "(- 305 :: int) < 0 \<or> int (length [1, 2, 3 :: 8 word]) \<le> - 305"
    by simp
  show ?thesis
    using rem
    by (simp add: demo_run_extended [OF len demo_rejected(2) demo_eip8_payload(1) ne rem all]
          demo_complete_handshake events_since_def)
qed

text \<open>
  C4, amended. After a first decode that raised a decryption error, a negative count for
  the second read is not rejected: it is passed to the reader as it is. If that read
  returns no byte or raises, the handshake ends with an exception (the decryption error
  of the first attempt, or the error of the read), no peer is built or registered and the
  pool is as before. If that read returns bytes, the second decode is the extended one,
  on the whole buffer, and its outcome decides: its exception ends the handshake with no
  peer built or registered and the pool as before, and its result is what the handshake
  goes on with, from the reply to the registration.
\<close>

theorem receive_handshake_negative_remaining:
  assumes rd1: "reader_read env (conns w k) (ENCRYPTED_AUTH_MSG_LEN env) = (Inr msg, c1)"
    and dec1: "fst (decode_authentication env msg (privkey self) w) = Inl (DecryptionError x)"
    and neg: "big_endian_to_int (take 2 msg) - ENCRYPTED_AUTH_MSG_LEN env + 2 < 0"
    and rd2: "reader_read env c1
                (big_endian_to_int (take 2 msg) - ENCRYPTED_AUTH_MSG_LEN env + 2) = (r2, c2)"
  shows "ReaderRead k (big_endian_to_int (take 2 msg) - ENCRYPTED_AUTH_MSG_LEN env + 2)
           \<in> set (events_since w (snd (receive_handshake env self k w))) \<and>
         ((\<forall>extra. r2 = Inr extra \<longrightarrow> extra = []) \<longrightarrow>
            fst (receive_handshake env self k w) =
              (case r2 of Inl e \<Rightarrow> Inl e | Inr extra \<Rightarrow> Inl (DecryptionError x)) \<and>
            peer_pool (snd (receive_handshake env self k w)) = peer_pool w \<and>
            filter is_registration (events_since w (snd (receive_handshake env self k w))) = []) \<and>
         (\<forall>extra. r2 = Inr extra \<and> extra \<noteq> [] \<longrightarrow>
            filter is_read_or_decode (events_since w (snd (receive_handshake env self k w))) =
              [ReaderRead k (ENCRYPTED_AUTH_MSG_LEN env),
               decoder_call env msg (privkey self),
               ReaderRead k (big_endian_to_int (take 2 msg) - ENCRYPTED_AUTH_MSG_LEN env + 2),
               DecodeAuthEip8 (msg @ extra) (privkey self)] \<and>
            (\<forall>e. fst (decode_authentication env (msg @ extra) (privkey self) w) = Inl e \<longrightarrow>
               fst (receive_handshake env self k w) = Inl e \<and>
               peer_pool (snd (receive_handshake env self k w)) = peer_pool w \<and>
               filter is_registration
                 (events_since w (snd (receive_handshake env self k w))) = []) \<and>
            (\<forall>p. fst (decode_authentication env (msg @ extra) (privkey self) w) = Inr p \<longrightarrow>
               receive_handshake env self k w =
                 complete_handshake env self k (msg @ extra, p)
                   (w\<lparr>conns := (conns w)(k := c2),
                      trace := trace w @ [ReaderRead k (ENCRYPTED_AUTH_MSG_LEN env)]
                        @ events_since w (snd (decode_authentication env msg (privkey self) w))
                        @ [ReaderRead k
                             (big_endian_to_int (take 2 msg) - ENCRYPTED_AUTH_MSG_LEN env + 2)]
                        @ events_since w
                            (snd (decode_authentication env (msg @ extra) (privkey self) w))\<rparr>)))"
proof -
  let ?rem = "big_endian_to_int (take 2 msg) - ENCRYPTED_AUTH_MSG_LEN env + 2"
  let ?R = "receive_handshake env self k w"
  have l: "list_all (\<lambda>e. is_crypto_call e \<or> is_read e)
             (events_since w (snd (decode_authentication env msg (privkey self) w)))"
    using decode_authentication_crypto [of w env msg "privkey self"] by (simp add: list_all_iff)
  have "\<forall>e \<in> set (events_since w (snd (decode_authentication env msg (privkey self) w))).
          \<not> is_registration e"
    using l crypto_or_read_other by (auto simp: list_all_iff)
  then have nr: "filter is_registration
                   (events_since w (snd (decode_authentication env msg (privkey self) w))) = []"
    by (simp add: filter_empty_conv)
  have nobytes: "fst ?R = (case r2 of Inl e \<Rightarrow> Inl e | Inr extra \<Rightarrow> Inl (DecryptionError x)) \<and>
            peer_pool (snd ?R) = peer_pool w \<and>
            filter is_registration (events_since w (snd ?R)) = [] \<and>
            ReaderRead k ?rem \<in> set (events_since w (snd ?R))"
    if nomore: "\<forall>extra. r2 = Inr extra \<longrightarrow> extra = []"
    unfolding receive_handshake_fallback_no_bytes [OF rd1 dec1 rd2 nomore]
    using nr by (cases r2) (simp_all add: events_since_def)
  have bytes: "filter is_read_or_decode (events_since w (snd ?R)) =
              [ReaderRead k (ENCRYPTED_AUTH_MSG_LEN env), decoder_call env msg (privkey self),
               ReaderRead k ?rem, DecodeAuthEip8 (msg @ extra) (privkey self)] \<and>
            (\<forall>e. fst (decode_authentication env (msg @ extra) (privkey self) w) = Inl e \<longrightarrow>
               fst ?R = Inl e \<and> peer_pool (snd ?R) = peer_pool w \<and>
               filter is_registration (events_since w (snd ?R)) = []) \<and>
            (\<forall>p. fst (decode_authentication env (msg @ extra) (privkey self) w) = Inr p \<longrightarrow>
               ?R = complete_handshake env self k (msg @ extra, p)
                   (w\<lparr>conns := (conns w)(k := c2),
                      trace := trace w @ [ReaderRead k (ENCRYPTED_AUTH_MSG_LEN env)]
                        @ events_since w (snd (decode_authentication env msg (privkey self) w))
                        @ [ReaderRead k ?rem]
                        @ events_since w
                            (snd (decode_authentication env (msg @ extra) (privkey self) w))\<rparr>))"
    if r: "r2 = Inr extra" and ne: "extra \<noteq> []" for extra
    using receive_handshake_fallback_bytes [OF rd1 dec1 rd2 [unfolded r] ne] .
  have mem: "ReaderRead k ?rem \<in> set (events_since w (snd ?R))"
  proof (cases "\<forall>extra. r2 = Inr extra \<longrightarrow> extra = []")
    case True
    then show ?thesis
      using nobytes by blast
  next
    case False
    then obtain extra where r: "r2 = Inr extra" and ne: "extra \<noteq> []"
      by blast
    from bytes [OF r ne]
    have "filter is_read_or_decode (events_since w (snd ?R)) =
              [ReaderRead k (ENCRYPTED_AUTH_MSG_LEN env), decoder_call env msg (privkey self),
               ReaderRead k ?rem, DecodeAuthEip8 (msg @ extra) (privkey self)]"
      by blast
    then have "ReaderRead k ?rem \<in> set (filter is_read_or_decode (events_since w (snd ?R)))"
      by simp
    then show ?thesis
      by simp
  qed
  show ?thesis
    using mem nobytes bytes by blast
qed

text \<open>
  C4, amended, on three connections whose first 307 bytes declare 0, so that the count is
  -305: one that holds nothing else (the read returns nothing, the handshake fails), one
  that holds three more bytes of a buffer the extended stand-in accepts (the handshake
  succeeds), and one that holds three more bytes of a buffer it rejects (the handshake
  fails, nothing is registered).
\<close>

theorem receive_handshake_negative_remaining_witness:
  "(reader_read demo_env (conns (demo_world demo_short_prefix_msg) 0)
      (ENCRYPTED_AUTH_MSG_LEN demo_env) = (Inr demo_short_prefix_msg, ([], [])) \<and>
    fst (decode_authentication demo_env demo_short_prefix_msg (privkey demo_self)
           (demo_world demo_short_prefix_msg)) = Inl (DecryptionError ''Failed to verify tag'') \<and>
    big_endian_to_int (take 2 demo_short_prefix_msg) - ENCRYPTED_AUTH_MSG_LEN demo_env + 2 < 0 \<and>
    reader_read demo_env ([], [])
      (big_endian_to_int (take 2 demo_short_prefix_msg) - ENCRYPTED_AUTH_MSG_LEN demo_env + 2)
      = (Inr [], ([], [])) \<and>
    ReaderRead 0 (- 305) \<in> set (events_since (demo_world demo_short_prefix_msg)
      (snd (receive_handshake demo_env demo_self 0 (demo_world demo_short_prefix_msg)))) \<and>
    fst (receive_handshake demo_env demo_self 0 (demo_world demo_short_prefix_msg))
      = Inl (DecryptionError ''Failed to verify tag'') \<and>
    peer_pool (snd (receive_handshake demo_env demo_self 0 (demo_world demo_short_prefix_msg)))
      = []) \<and>
   (reader_read demo_env (conns (demo_world (demo_short_prefix_msg @ [1, 2, 3])) 0)
      (ENCRYPTED_AUTH_MSG_LEN demo_env) = (Inr demo_short_prefix_msg, ([1, 2, 3], [])) \<and>
    reader_read demo_env ([1, 2, 3], [])
      (big_endian_to_int (take 2 demo_short_prefix_msg) - ENCRYPTED_AUTH_MSG_LEN demo_env + 2)
      = (Inr [1, 2, 3], ([], [])) \<and>
    fst (decode_authentication demo_env (demo_short_prefix_msg @ [1, 2, 3]) (privkey demo_self)
           (demo_world (demo_short_prefix_msg @ [1, 2, 3])))
      = Inr (PublicKey [10, 11, 12, 11, 8, 57], [30, 31, 32], PublicKey [20, 21, 22]) \<and>
    filter is_read_or_decode (events_since (demo_world (demo_short_prefix_msg @ [1, 2, 3]))
      (snd (receive_handshake demo_env demo_self 0
              (demo_world (demo_short_prefix_msg @ [1, 2, 3])))))
      = [ReaderRead 0 307, DecodeAuthPlain demo_short_prefix_msg (PrivateKey [1, 2, 3]),
         ReaderRead 0 (- 305),
         DecodeAuthEip8 (demo_short_prefix_msg @ [1, 2, 3]) (PrivateKey [1, 2, 3])] \<and>
    fst (receive_handshake demo_env demo_self 0 (demo_world (demo_short_prefix_msg @ [1, 2, 3])))
      = Inr ()) \<and>
   (reader_read demo_env (conns (demo_world (replicate 307 0 @ [1, 2, 3])) 0)
      (ENCRYPTED_AUTH_MSG_LEN demo_env) = (Inr (replicate 307 0), ([1, 2, 3], [])) \<and>
    fst (decode_authentication demo_env (replicate 307 0) (privkey demo_self)
           (demo_world (replicate 307 0 @ [1, 2, 3])))
      = Inl (DecryptionError ''Failed to verify tag'') \<and>
    big_endian_to_int (take 2 (replicate 307 0)) - ENCRYPTED_AUTH_MSG_LEN demo_env + 2 = - 305 \<and>
    fst (decode_authentication demo_env (replicate 307 0 @ [1, 2, 3]) (privkey demo_self)
           (demo_world (replicate 307 0 @ [1, 2, 3])))
      = Inl (DecryptionError ''Failed to verify tag'') \<and>
    fst (receive_handshake demo_env demo_self 0 (demo_world (replicate 307 0 @ [1, 2, 3])))
      = Inl (DecryptionError ''Failed to verify tag'') \<and>
    peer_pool (snd (receive_handshake demo_env demo_self 0
                      (demo_world (replicate 307 0 @ [1, 2, 3])))) = [])"
proof -
  let ?m = demo_short_prefix_msg
  let ?z = "replicate 307 (0 :: 8 word)"
  let ?x = "[1, 2, 3 :: 8 word]"
  let ?k = "privkey demo_self"
  have ne: "?x \<noteq> []"
    by simp
  have nomore: "\<forall>extra. (Inr [] :: error + bytes) = Inr extra \<longrightarrow> extra = []"
    by simp
  \<comment> \<open>the run without further bytes\<close>
  have rd1a: "reader_read demo_env (conns (demo_world ?m) 0) (ENCRYPTED_AUTH_MSG_LEN demo_env)
                = (Inr ?m, ([], []))"
    by (simp add: demo_env_def demo_read_def)
  have da: "fst (decode_authentication demo_env ?m ?k (demo_world ?m))
              = Inl (DecryptionError ''Failed to verify tag'')"
    by (simp add: demo_decode_rejected [OF demo_len(3) demo_rejected(2)])
  have neg: "big_endian_to_int (take 2 ?m) - ENCRYPTED_AUTH_MSG_LEN demo_env + 2 < 0"
    by (simp add: demo_big_endian)
  have rd2a: "reader_read demo_env ([], [])
                (big_endian_to_int (take 2 ?m) - ENCRYPTED_AUTH_MSG_LEN demo_env + 2)
                = (Inr [], ([], []))"
    by (simp add: demo_env_def demo_read_def)
  note ta = receive_handshake_negative_remaining [OF rd1a da neg rd2a]
  have a: "ReaderRead 0 (- 305) \<in> set (events_since (demo_world ?m)
             (snd (receive_handshake demo_env demo_self 0 (demo_world ?m)))) \<and>
           fst (receive_handshake demo_env demo_self 0 (demo_world ?m))
             = Inl (DecryptionError ''Failed to verify tag'') \<and>
           peer_pool (snd (receive_handshake demo_env demo_self 0 (demo_world ?m))) = []"
    using ta nomore by (simp add: demo_big_endian)
  \<comment> \<open>the run with three more bytes that the extended decoder accepts\<close>
  have rd1b: "reader_read demo_env (conns (demo_world (?m @ ?x)) 0)
                (ENCRYPTED_AUTH_MSG_LEN demo_env) = (Inr ?m, (?x, []))"
    by (simp add: demo_env_def demo_read_def)
  have db: "fst (decode_authentication demo_env ?m ?k (demo_world (?m @ ?x)))
              = Inl (DecryptionError ''Failed to verify tag'')"
    by (simp add: demo_decode_rejected [OF demo_len(3) demo_rejected(2)])
  have rd2b: "reader_read demo_env (?x, [])
                (big_endian_to_int (take 2 ?m) - ENCRYPTED_AUTH_MSG_LEN demo_env + 2)
                = (Inr ?x, ([], []))"
    by (simp add: demo_env_def demo_read_def demo_big_endian)
  have d2b: "fst (decode_authentication demo_env (?m @ ?x) ?k (demo_world (?m @ ?x)))
               = Inr (PublicKey [10, 11, 12, 11, 8, 57], [30, 31, 32], PublicKey [20, 21, 22])"
    using demo_decode_eip8 [OF demo_len(3) ne demo_eip8_payload(1), of "demo_world (?m @ ?x)"]
    by simp
  note tb = receive_handshake_negative_remaining [OF rd1b db neg rd2b]
  from tb ne have fb: "filter is_read_or_decode (events_since (demo_world (?m @ ?x))
             (snd (receive_handshake demo_env demo_self 0 (demo_world (?m @ ?x)))))
           = [ReaderRead 0 (ENCRYPTED_AUTH_MSG_LEN demo_env), decoder_call demo_env ?m ?k,
              ReaderRead 0 (big_endian_to_int (take 2 ?m) - ENCRYPTED_AUTH_MSG_LEN demo_env + 2),
              DecodeAuthEip8 (?m @ ?x) ?k]"
    by blast
  from tb ne d2b obtain wb where
    rb: "receive_handshake demo_env demo_self 0 (demo_world (?m @ ?x)) =
           complete_handshake demo_env demo_self 0
             (?m @ ?x, PublicKey [10, 11, 12, 11, 8, 57], [30, 31, 32], PublicKey [20, 21, 22]) wb"
    by blast
  have b: "filter is_read_or_decode (events_since (demo_world (?m @ ?x))
             (snd (receive_handshake demo_env demo_self 0 (demo_world (?m @ ?x)))))
           = [ReaderRead 0 307, DecodeAuthPlain ?m (PrivateKey [1, 2, 3]), ReaderRead 0 (- 305),
              DecodeAuthEip8 (?m @ ?x) (PrivateKey [1, 2, 3])] \<and>
           fst (receive_handshake demo_env demo_self 0 (demo_world (?m @ ?x))) = Inr ()"
    using fb by (simp add: rb demo_complete_handshake demo_big_endian decoder_call_def)
  \<comment> \<open>the run with three more bytes that the extended decoder rejects\<close>
  have lz: "length ?z = 307"
    by simp
  have rz: "take 1 ?z \<noteq> [4]"
    by simp
  have bz: "big_endian_to_int (take 2 ?z) = 0"
    by (simp add: big_endian_to_int_def numeral_2_eq_2)
  have rd1c: "reader_read demo_env (conns (demo_world (?z @ ?x)) 0)
                (ENCRYPTED_AUTH_MSG_LEN demo_env) = (Inr ?z, (?x, []))"
    by (simp add: demo_env_def demo_read_def)
  have dc: "fst (decode_authentication demo_env ?z ?k (demo_world (?z @ ?x)))
              = Inl (DecryptionError ''Failed to verify tag'')"
    by (simp add: demo_decode_rejected [OF lz rz])
  have negc: "big_endian_to_int (take 2 ?z) - ENCRYPTED_AUTH_MSG_LEN demo_env + 2 < 0"
    using bz by simp
  have rd2c: "reader_read demo_env (?x, [])
                (big_endian_to_int (take 2 ?z) - ENCRYPTED_AUTH_MSG_LEN demo_env + 2)
                = (Inr ?x, ([], []))"
    using bz by (simp add: demo_env_def demo_read_def)
  have d2c: "fst (decode_authentication demo_env (?z @ ?x) ?k (demo_world (?z @ ?x)))
               = Inl (DecryptionError ''Failed to verify tag'')"
    by (simp add: decode_authentication_def bindE_call demo_env_def demo_payload_def)
  note tc = receive_handshake_negative_remaining [OF rd1c dc negc rd2c]
  from tc ne d2c have c:
    "fst (receive_handshake demo_env demo_self 0 (demo_world (?z @ ?x)))
       = Inl (DecryptionError ''Failed to verify tag'') \<and>
     peer_pool (snd (receive_handshake demo_env demo_self 0 (demo_world (?z @ ?x))))
       = peer_pool (demo_world (?z @ ?x))"
    by blast
  have remc: "big_endian_to_int (take 2 ?z) - ENCRYPTED_AUTH_MSG_LEN demo_env + 2 = - 305"
    using bz by simp
  show ?thesis
    using rd1a da neg rd2a a rd1b rd2b d2b b rd1c dc remc d2c c
    by simp
qed



text \<open>
  C8. When the handshake of a connection ends with an exception, the cancel token and the
  listening socket of the server are as before, and so is every other connection. Unless
  the exception is raised by the registry's own \<open>add_peer\<close>, the pool is as before and no
  peer was built: if the constructor of the peer was called at all, it is the call that
  raised.
\<close>

theorem receive_handshake_failure_contained:
  assumes run: "receive_handshake env self k w = (Inl err, w')"
  shows "cancel_token w' = cancel_token w \<and> u_server w' = u_server w \<and>
         (\<forall>j. j \<noteq> k \<longrightarrow> conns w' j = conns w j) \<and>
         (AddPeer \<notin> set (events_since w w') \<longrightarrow>
            peer_pool w' = peer_pool w \<and>
            (\<forall>a. NewETHPeer a \<in> set (events_since w w') \<longrightarrow> new_ETHPeer env a = Inl err)) \<and>
         (AddPeer \<in> set (events_since w w') \<longrightarrow>
            (\<exists>peer. add_peer env (peer_pool w) peer = (Inl err, peer_pool w')))"
proof -
  obtain r1 w1 where ra: "receive_auth_init env self k w = (r1, w1)"
    by (cases "receive_auth_init env self k w")
  note sh = receive_auth_init_shape [OF ra]
  from sh have l1: "list_all (\<lambda>e. is_crypto_call e \<or> is_read e) (events_since w w1)"
    by blast
  note f1 = crypto_or_read_filter [OF l1]
  show ?thesis
  proof (cases r1)
    case (Inl e)
    with ra run have "w' = w1"
      by (simp add: receive_handshake_fail)
    with sh f1 show ?thesis
      by simp
  next
    case (Inr x)
    with ra run have ch: "complete_handshake env self k x w1 = (Inl err, w')"
      by (simp add: receive_handshake_cont)
    note fr = complete_handshake_frame [OF ch]
    note po = complete_handshake_pool [OF ch]
    have ev: "events_since w w' = events_since w w1 @ events_since w1 w'"
      using sh fr by (intro events_since_trans) blast+
    show ?thesis
      using sh fr po f1 by (auto simp: ev)
  qed
qed

text \<open>
  C8, on three runs that fail: a peer that closes after ten bytes (length error, nothing
  registered), a peer constructor that raises, and a registry whose \<open>add_peer\<close> raises.
\<close>

theorem receive_handshake_failure_contained_witness:
  "(fst (receive_handshake demo_env demo_self 0 (demo_world (replicate 10 0)))
      = Inl (ValueError ''Auth msg too short: 10'') \<and>
    AddPeer \<notin> set (events_since (demo_world (replicate 10 0))
      (snd (receive_handshake demo_env demo_self 0 (demo_world (replicate 10 0))))) \<and>
    peer_pool (snd (receive_handshake demo_env demo_self 0 (demo_world (replicate 10 0)))) = [] \<and>
    \<not> cancel_token (snd (receive_handshake demo_env demo_self 0 (demo_world (replicate 10 0)))) \<and>
    u_server (snd (receive_handshake demo_env demo_self 0 (demo_world (replicate 10 0)))) = None \<and>
    conns (snd (receive_handshake demo_env demo_self 0 (demo_world (replicate 10 0)))) 1
      = ([], [])) \<and>
   (fst (receive_handshake
           (demo_env_with (\<lambda>a. Inl (ValueError ''Invalid key size'')) (\<lambda>p x. (Inr (), p @ [x])))
           demo_self 0 (demo_world demo_plain_msg)) = Inl (ValueError ''Invalid key size'') \<and>
    AddPeer \<notin> set (events_since (demo_world demo_plain_msg)
      (snd (receive_handshake
           (demo_env_with (\<lambda>a. Inl (ValueError ''Invalid key size'')) (\<lambda>p x. (Inr (), p @ [x])))
           demo_self 0 (demo_world demo_plain_msg)))) \<and>
    NewETHPeer demo_peer \<in> set (events_since (demo_world demo_plain_msg)
      (snd (receive_handshake
           (demo_env_with (\<lambda>a. Inl (ValueError ''Invalid key size'')) (\<lambda>p x. (Inr (), p @ [x])))
           demo_self 0 (demo_world demo_plain_msg)))) \<and>
    new_ETHPeer
      (demo_env_with (\<lambda>a. Inl (ValueError ''Invalid key size'')) (\<lambda>p x. (Inr (), p @ [x])))
      demo_peer = Inl (ValueError ''Invalid key size'') \<and>
    peer_pool (snd (receive_handshake
           (demo_env_with (\<lambda>a. Inl (ValueError ''Invalid key size'')) (\<lambda>p x. (Inr (), p @ [x])))
           demo_self 0 (demo_world demo_plain_msg))) = []) \<and>
   (fst (receive_handshake
           (demo_env_with Inr (\<lambda>p x. (Inl (OtherException ''pool is stopping''), p)))
           demo_self 0 (demo_world demo_plain_msg)) = Inl (OtherException ''pool is stopping'') \<and>
    AddPeer \<in> set (events_since (demo_world demo_plain_msg)
      (snd (receive_handshake
           (demo_env_with Inr (\<lambda>p x. (Inl (OtherException ''pool is stopping''), p)))
           demo_self 0 (demo_world demo_plain_msg)))) \<and>
    (\<exists>peer. add_peer (demo_env_with Inr (\<lambda>p x. (Inl (OtherException ''pool is stopping''), p)))
               (peer_pool (demo_world demo_plain_msg)) peer =
             (Inl (OtherException ''pool is stopping''),
              peer_pool (snd (receive_handshake
                (demo_env_with Inr (\<lambda>p x. (Inl (OtherException ''pool is stopping''), p)))
                demo_self 0 (demo_world demo_plain_msg))))))"
proof -
  let ?w1 = "demo_world (replicate 10 0)"
  let ?R1 = "receive_handshake demo_env demo_self 0 ?w1"
  let ?w = "demo_world demo_plain_msg"
  let ?E2 = "demo_env_with (\<lambda>a. Inl (ValueError ''Invalid key size'')) (\<lambda>p x. (Inr (), p @ [x]))"
  let ?R2 = "receive_handshake ?E2 demo_self 0 ?w"
  let ?E3 = "demo_env_with Inr (\<lambda>p x. (Inl (OtherException ''pool is stopping''), p))"
  let ?R3 = "receive_handshake ?E3 demo_self 0 ?w"
  have r1: "?R1 = (Inl (ValueError ''Auth msg too short: 10''), snd ?R1)"
    by (simp add: demo_run_short_read)
  have a1: "AddPeer \<notin> set (events_since ?w1 (snd ?R1))"
    by (simp add: demo_run_short_read events_since_def)
  have c1: "conns (snd ?R1) 1 = ([], [])"
    unfolding demo_run_short_read by (simp add: demo_world_def init_world_def)
  note f2 = demo_run_peer_fails [of "\<lambda>p x. (Inr (), p @ [x])"]
  have r2: "?R2 = (Inl (ValueError ''Invalid key size''), snd ?R2)"
    using f2 by (simp add: prod_eq_iff)
  have a2: "AddPeer \<notin> set (events_since ?w (snd ?R2))"
    using f2 by (simp add: registration_mem [of AddPeer])
  have n2: "NewETHPeer demo_peer \<in> set (events_since ?w (snd ?R2))"
    using f2 by (simp add: registration_mem [of "NewETHPeer demo_peer"])
  note f3 = demo_run_pool_fails
  have r3: "?R3 = (Inl (OtherException ''pool is stopping''), snd ?R3)"
    using f3 by (simp add: prod_eq_iff)
  have a3: "AddPeer \<in> set (events_since ?w (snd ?R3))"
    using f3 by (simp add: registration_mem [of AddPeer])
  note t1 = receive_handshake_failure_contained [OF r1]
  note t2 = receive_handshake_failure_contained [OF r2]
  note t3 = receive_handshake_failure_contained [OF r3]
  have p1: "peer_pool (snd ?R1) = [] \<and> \<not> cancel_token (snd ?R1) \<and> u_server (snd ?R1) = None"
    using t1 a1 by (simp add: demo_world_def init_world_def)
  have p2: "peer_pool (snd ?R2) = [] \<and> new_ETHPeer ?E2 demo_peer = Inl (ValueError ''Invalid key size'')"
    using t2 a2 n2 by simp
  have p3: "\<exists>peer. add_peer ?E3 (peer_pool ?w) peer =
              (Inl (OtherException ''pool is stopping''), peer_pool (snd ?R3))"
    using t3 a3 by blast
  show ?thesis
    using r1 a1 c1 p1 r2 a2 n2 p2 r3 a3 p3
    by (metis fst_conv)
qed

end
